theory Spec2Isabelle
  imports Complex_Main
begin

section \<open>JavaScript values\<close>

text \<open>
  The agents hand around values that come out of \<^verbatim>\<open>JSON.parse\<close> and object literals.
  A number is a double: a rational, an infinity or NaN (the sign of zero is not kept, no
  operation of the agents reads it).  An object is the list of its own properties in
  insertion order, each key once.
\<close>

datatype jsnum = Finite rat | PosInfinity | NegInfinity | NaN

datatype jsval =
    JUndefined
  | JNull
  | JBool bool
  | JNum jsnum
  | JStr string
  | JArr "jsval list"
  | JObj "(string \<times> jsval) list"

text \<open>Truthiness, as \<^verbatim>\<open>if (v)\<close>, \<^verbatim>\<open>v || d\<close> and \<^verbatim>\<open>!v\<close> read a value.\<close>

fun truthy :: "jsval \<Rightarrow> bool" where
  "truthy JUndefined = False"
| "truthy JNull = False"
| "truthy (JBool b) = b"
| "truthy (JNum n) = (n \<noteq> Finite 0 \<and> n \<noteq> NaN)"
| "truthy (JStr s) = (s \<noteq> [])"
| "truthy (JArr xs) = True"
| "truthy (JObj ps) = True"

text \<open>\<^verbatim>\<open>a || b\<close>\<close>

definition js_or :: "jsval \<Rightarrow> jsval \<Rightarrow> jsval" where
  "js_or a b = (if truthy a then a else b)"

text \<open>
  \<^verbatim>\<open>v.k\<close> for a value that is not null or undefined: an own property of an object,
  \<^verbatim>\<open>undefined\<close> otherwise (none of the names read here is inherited).
\<close>

fun js_get :: "jsval \<Rightarrow> string \<Rightarrow> jsval" where
  "js_get (JObj ps) k = (case map_of ps k of Some v \<Rightarrow> v | None \<Rightarrow> JUndefined)"
| "js_get v k = JUndefined"

fun nullish :: "jsval \<Rightarrow> bool" where
  "nullish JUndefined = True"
| "nullish JNull = True"
| "nullish v = False"

text \<open>Writing a property: an existing key keeps its place and takes the new value.\<close>

fun set_prop :: "string \<Rightarrow> jsval \<Rightarrow> (string \<times> jsval) list \<Rightarrow> (string \<times> jsval) list" where
  "set_prop k v [] = [(k, v)]"
| "set_prop k v ((k', v') # ps) = (if k = k' then (k, v) # ps else (k', v') # set_prop k v ps)"

section \<open>The region of a completion that is parsed\<close>

text \<open>
  \<^verbatim>\<open>response.content.match(/\{[\s\S]*\}/)\<close>: the leftmost position with an opening brace
  from which the greedy \<^verbatim>\<open>[\s\S]*\<close> can still end on a closing brace; the match runs to
  the last closing brace of the text.  \<open>None\<close> is \<^verbatim>\<open>null\<close>, \<open>Some r\<close> is
  \<^verbatim>\<open>jsonMatch[0] = r\<close>.
\<close>

fun upto_last :: "char \<Rightarrow> string \<Rightarrow> string option" where
  "upto_last c [] = None"
| "upto_last c (x # xs) =
     (case upto_last c xs of
        Some ys \<Rightarrow> Some (x # ys)
      | None \<Rightarrow> if x = c then Some [x] else None)"

fun jsonMatch :: "string \<Rightarrow> string option" where
  "jsonMatch [] = None"
| "jsonMatch (x # xs) =
     (if x = CHR ''{'' then
        (case upto_last CHR ''}'' xs of
           Some ys \<Rightarrow> Some (x # ys)
         | None \<Rightarrow> jsonMatch xs)
      else jsonMatch xs)"

text \<open>
  The specification's wording, for comparison: the first balanced \<^verbatim>\<open>{...}\<close> region, that
  is, from the leftmost opening brace that is ever closed to the brace that closes it.
\<close>

fun balanced_prefix :: "nat \<Rightarrow> string \<Rightarrow> string option" where
  "balanced_prefix d [] = None"
| "balanced_prefix d (x # xs) =
     (if x = CHR ''{'' then map_option (Cons x) (balanced_prefix (Suc d) xs)
      else if x = CHR ''}'' then
        (if d = 0 then Some [x] else map_option (Cons x) (balanced_prefix (d - 1) xs))
      else map_option (Cons x) (balanced_prefix d xs))"

fun spec_first_balanced_region :: "string \<Rightarrow> string option" where
  "spec_first_balanced_region [] = None"
| "spec_first_balanced_region (x # xs) =
     (if x = CHR ''{'' then
        (case balanced_prefix 0 xs of
           Some ys \<Rightarrow> Some (x # ys)
         | None \<Rightarrow> spec_first_balanced_region xs)
      else spec_first_balanced_region xs)"

section \<open>The outside world\<close>

text \<open>
  An exception is a value with a message (\<^verbatim>\<open>error.message\<close>).  \<open>TypeError\<close> is the one
  the language raises itself when a property of \<^verbatim>\<open>null\<close> or \<^verbatim>\<open>undefined\<close> is read.
\<close>

datatype error = Error string | TypeError string

fun message :: "error \<Rightarrow> string" where
  "message (Error m) = m"
| "message (TypeError m) = m"

text \<open>A stored question/answer record, and the same three fields as a reference.\<close>

record qa =
  fileId :: string
  question :: string
  answer :: string

record weaviate_object =
  properties :: qa

text \<open>
  The two requests the agents send to the \<^verbatim>\<open>QACollection\<close> of a tenant:
  \<^verbatim>\<open>query.bm25(query, {limit, ...})\<close>, here \<open>Bm25 tenant query limit\<close>, and
  \<^verbatim>\<open>query.fetchObjects({limit, ...})\<close>, here \<open>FetchObjects tenant limit\<close>.
\<close>

datatype request =
    Bm25 string string nat
  | FetchObjects string nat

text \<open>
  Everything the code awaits from outside is a field of the world: a completion of the
  language model (\<^verbatim>\<open>getGeminiModel({temperature}).invoke(prompt)\<close>, giving
  \<^verbatim>\<open>response.content\<close> or throwing), the runtime's \<^verbatim>\<open>JSON.parse\<close> (\<open>None\<close> when it throws
  a SyntaxError), the document store (connecting, answering a request with
  \<^verbatim>\<open>result.objects\<close>, closing; each may throw), the order in which concurrent promises
  settle (indices into the task array, earliest first) and the two clock readings.
\<close>

record world =
  invoke :: "rat \<Rightarrow> string \<Rightarrow> error + string"
  JSON_parse :: "string \<Rightarrow> jsval option"
  connectToLocal :: "request \<Rightarrow> error + unit"
  run_request :: "request \<Rightarrow> error + weaviate_object list option"
  close :: "request \<Rightarrow> error + unit"
  settle :: "nat list"
  startTime :: string
  timestamp :: string

text \<open>The calls a function makes to the outside, in order.\<close>

datatype event =
    Invoke rat string
  | Connect request
  | Query request
  | Close request

section \<open>The RAG agent\<close>

text \<open>
  \<^verbatim>\<open>retrieveFromWeaviate\<close> and \<^verbatim>\<open>fetchAllFromWeaviate\<close> have one shape: get a client
  (a failure propagates, nothing is closed), run the request inside \<^verbatim>\<open>try\<close>, rethrow in
  \<^verbatim>\<open>catch\<close>, close the client in \<^verbatim>\<open>finally\<close> (a failure of the close replaces the outcome).
\<close>

definition with_client :: "world \<Rightarrow> request \<Rightarrow> event list \<times> (error + weaviate_object list option)" where
  "with_client w rq =
     (case connectToLocal w rq of
        Inl e \<Rightarrow> ([Connect rq], Inl e)
      | Inr u \<Rightarrow>
          ([Connect rq, Query rq, Close rq],
           (case close w rq of
              Inl e \<Rightarrow> Inl e
            | Inr u' \<Rightarrow> run_request w rq)))"

definition retrieveFromWeaviate ::
  "world \<Rightarrow> string \<Rightarrow> string \<Rightarrow> nat \<Rightarrow> event list \<times> (error + weaviate_object list option)" where
  "retrieveFromWeaviate w query tenant limit = with_client w (Bm25 tenant query limit)"

definition fetchAllFromWeaviate ::
  "world \<Rightarrow> string \<Rightarrow> event list \<times> (error + weaviate_object list option)" where
  "fetchAllFromWeaviate w tenant = with_client w (FetchObjects tenant 100)"

text \<open>\<^verbatim>\<open>!retrievedDocs || retrievedDocs.length === 0\<close>\<close>

fun no_documents :: "weaviate_object list option \<Rightarrow> bool" where
  "no_documents None = True"
| "no_documents (Some ds) = (ds = [])"

record rag_result =
  answer :: string
  fileIds :: "string list"
  references :: "qa list"

text \<open>A number in decimal, for \<^verbatim>\<open>${idx + 1}\<close>.\<close>

definition digit_char :: "nat \<Rightarrow> char" where
  "digit_char d = char_of (d + of_char CHR ''0'')"

fun decimal :: "nat \<Rightarrow> string" where
  "decimal n = (if 10 \<le> n then decimal (n div 10) @ [digit_char (n mod 10)] else [digit_char n])"

declare decimal.simps [simp del]

text \<open>\<^verbatim>\<open>Array.prototype.join\<close>\<close>

fun join :: "string \<Rightarrow> string list \<Rightarrow> string" where
  "join sep [] = []"
| "join sep [x] = x"
| "join sep (x # y # ys) = x @ sep @ join sep (y # ys)"

definition document_text :: "nat \<times> weaviate_object \<Rightarrow> string" where
  \<open>document_text p =
     (case p of (idx, doc) \<Rightarrow>
        ''Document '' @ decimal (idx + 1) @ '' (File: '' @ fileId (properties doc) @ ''):\<newline>'' @
        ''Question: '' @ question (properties doc) @ ''\<newline>'' @
        ''Answer: '' @ qa.answer (properties doc))\<close>

definition rag_prompt :: "string \<Rightarrow> string \<Rightarrow> string" where
  \<open>rag_prompt context query =
     ''You are a helpful AI assistant. Answer the user's question based on the following retrieved documents.\<newline>'' @
     ''\<newline>'' @
     ''Retrieved Documents:\<newline>'' @
     context @
     ''\<newline>'' @
     ''\<newline>'' @
     ''User Question: '' @
     query @
     ''\<newline>'' @
     ''\<newline>'' @
     ''Instructions:\<newline>'' @
     ''- Answer the question based on the retrieved documents above\<newline>'' @
     ''- If the documents contain relevant information, use it to provide a comprehensive answer\<newline>'' @
     ''- If the documents don't directly answer the question, try to provide related information\<newline>'' @
     ''- Be concise but informative\<newline>'' @
     ''- Do not mention that you're using retrieved documents, just answer naturally\<newline>'' @
     ''\<newline>'' @
     ''Answer:''\<close>

definition no_information :: rag_result where
  "no_information =
     \<lparr>answer = ''I could not find any relevant information in the database to answer your question.'',
      fileIds = [], references = []\<rparr>"

text \<open>
  Steps 2 to 4 of \<^verbatim>\<open>ragGenerate\<close>, once the retrieved documents are in hand: the
  empty-result return, or the identifiers, the references, the context, and the completion.
\<close>

definition generate_from :: "world \<Rightarrow> string \<Rightarrow> weaviate_object list option \<Rightarrow> event list \<times> (error + rag_result)" where
  "generate_from w query retrievedDocs =
     (case retrievedDocs of
        None \<Rightarrow> ([], Inr no_information)
      | Some docs \<Rightarrow>
          if docs = [] then ([], Inr no_information)
          else
            (let fileIds' = map (\<lambda>doc. fileId (properties doc)) docs;
                 references' = map (\<lambda>doc. \<lparr>fileId = fileId (properties doc),
                                              question = question (properties doc),
                                              answer = qa.answer (properties doc)\<rparr>) docs;
                 context = join [CHR 10, CHR 10] (map document_text (enumerate 0 docs));
                 prompt = rag_prompt context query
             in ([Invoke 0.5 prompt],
                 (case invoke w 0.5 prompt of
                    Inl e \<Rightarrow> Inl e
                  | Inr content \<Rightarrow>
                      Inr \<lparr>answer = content, fileIds = fileIds', references = references'\<rparr>))))"

text \<open>
  Step 1 of \<^verbatim>\<open>ragGenerate\<close>: the keyword search for at most 5 documents, and the full
  scan when it gave none.
\<close>

definition retrieve_documents ::
  "world \<Rightarrow> string \<Rightarrow> string \<Rightarrow> event list \<times> (error + weaviate_object list option)" where
  "retrieve_documents w query tenant =
     (case retrieveFromWeaviate w query tenant 5 of
        (t1, Inl e) \<Rightarrow> (t1, Inl e)
      | (t1, Inr found) \<Rightarrow>
          if no_documents found then
            (case fetchAllFromWeaviate w tenant of (t2, r) \<Rightarrow> (t1 @ t2, r))
          else (t1, Inr found))"

text \<open>
  \<^verbatim>\<open>ragGenerate\<close>.  The \<^verbatim>\<open>catch\<close> logs and rethrows, so a failure of any step is the
  result of the call.
\<close>

definition ragGenerate :: "world \<Rightarrow> string \<Rightarrow> string \<Rightarrow> event list \<times> (error + rag_result)" where
  "ragGenerate w query tenant =
     (case retrieve_documents w query tenant of
        (t1, Inl e) \<Rightarrow> (t1, Inl e)
      | (t1, Inr retrievedDocs) \<Rightarrow>
          (case generate_from w query retrievedDocs of
             (t2, r) \<Rightarrow> (t1 @ t2, r)))"

text \<open>
  The completion requests of a trace, and the store requests it starts (each starts with
  its own connection).
\<close>

fun completion_requests :: "event list \<Rightarrow> (rat \<times> string) list" where
  "completion_requests [] = []"
| "completion_requests (Invoke temperature prompt # evs) = (temperature, prompt) # completion_requests evs"
| "completion_requests (ev # evs) = completion_requests evs"

fun searches_started :: "event list \<Rightarrow> request list" where
  "searches_started [] = []"
| "searches_started (Connect rq # evs) = rq # searches_started evs"
| "searches_started (ev # evs) = searches_started evs"

section \<open>The chart tool\<close>

text \<open>\<^verbatim>\<open>color.replace('0.8', '1')\<close>: the first occurrence of the pattern is replaced.\<close>

fun replace :: "string \<Rightarrow> string \<Rightarrow> string \<Rightarrow> string" where
  "replace pat new [] = (if pat = [] then new else [])"
| "replace pat new (c # cs) =
     (if take (length pat) (c # cs) = pat then new @ drop (length pat) (c # cs)
      else c # replace pat new cs)"

definition chartColors :: "string list" where
  "chartColors =
     [''rgba(255, 99, 132, 0.8)'',
      ''rgba(54, 162, 235, 0.8)'',
      ''rgba(255, 206, 86, 0.8)'',
      ''rgba(75, 192, 192, 0.8)'',
      ''rgba(153, 102, 255, 0.8)'',
      ''rgba(255, 159, 64, 0.8)'']"

text \<open>
  \<^verbatim>\<open>generateChartConfig({ chartType, labels, data, title })\<close>.  Destructuring
  \<^verbatim>\<open>null\<close> or \<^verbatim>\<open>undefined\<close> throws (the message is V8's); any other value gives
  its properties.  The two \<^verbatim>\<open>if\<close>s after the literal add properties to the first
  dataset and to the options; they read the \<^verbatim>\<open>chartType\<close> that was passed, not the
  defaulted \<^verbatim>\<open>type\<close>.
\<close>

definition generateChartConfig :: "jsval \<Rightarrow> error + jsval" where
  "generateChartConfig params =
     (if params = JNull then
        Inl (TypeError ''Cannot destructure property 'chartType' of 'object null' as it is null.'')
      else if params = JUndefined then
        Inl (TypeError ''Cannot destructure property 'chartType' of 'undefined' as it is undefined.'')
      else
        (let chartType = js_get params ''chartType'';
             labels = js_get params ''labels'';
             data = js_get params ''data'';
             title = js_get params ''title''
         in Inr (JObj
              [(''type'', js_or chartType (JStr ''bar'')),
               (''data'', JObj
                  [(''labels'', js_or labels (JArr [JStr ''Label 1'', JStr ''Label 2'', JStr ''Label 3''])),
                   (''datasets'', JArr
                      [JObj
                         ([(''label'', js_or title (JStr ''Dataset'')),
                           (''data'', js_or data (JArr [JNum (Finite 12), JNum (Finite 19), JNum (Finite 3)])),
                           (''backgroundColor'', JArr (map JStr chartColors)),
                           (''borderColor'', JArr (map (\<lambda>color. JStr (replace ''0.8'' ''1'' color)) chartColors)),
                           (''borderWidth'', JNum (Finite 1))]
                          @ (if chartType = JStr ''line''
                             then [(''tension'', JNum (Finite 0.4)), (''fill'', JBool False)]
                             else []))])]),
               (''options'', JObj
                  ([(''responsive'', JBool True),
                    (''plugins'', JObj
                       [(''legend'', JObj [(''position'', JStr ''top'')]),
                        (''title'', JObj
                           [(''display'', JBool True),
                            (''text'', js_or title (JStr ''Chart Title''))])])]
                   @ (if chartType = JStr ''bar'' \<or> chartType = JStr ''line''
                      then [(''scales'', JObj [(''y'', JObj [(''beginAtZero'', JBool True)])])]
                      else [])))])))"

definition mockGenerateChart :: "jsval \<Rightarrow> error + jsval" where
  "mockGenerateChart params = generateChartConfig params"

text \<open>
  What a chart configuration shows: \<^verbatim>\<open>config.data.labels\<close> and
  \<^verbatim>\<open>config.data.datasets[0].data\<close>.
\<close>

definition config_labels :: "jsval \<Rightarrow> jsval" where
  "config_labels config = js_get (js_get config ''data'') ''labels''"

definition config_data :: "jsval \<Rightarrow> jsval" where
  "config_data config =
     (case js_get (js_get config ''data'') ''datasets'' of
        JArr (d # ds) \<Rightarrow> js_get d ''data''
      | v \<Rightarrow> JUndefined)"

text \<open>\<^verbatim>\<open>v.length\<close> of an array.\<close>

fun array_length :: "jsval \<Rightarrow> nat option" where
  "array_length (JArr xs) = Some (length xs)"
| "array_length v = None"

section \<open>The delegating agent\<close>

definition analysisPrompt :: "string \<Rightarrow> string" where
  \<open>analysisPrompt query =
     ''You are a routing assistant. Analyze the user's query and determine which tools are needed.\<newline>'' @
     ''\<newline>'' @
     ''Available tools:\<newline>'' @
     ''1. CHART - Generate Chart.js visualizations (bar, line, pie, doughnut, radar charts)\<newline>'' @
     ''2. RAG - Search knowledge base and retrieve information\<newline>'' @
     ''3. DIRECT - Answer directly without tools\<newline>'' @
     ''\<newline>'' @
     ''User Query: "'' @
     query @
     ''"\<newline>'' @
     ''\<newline>'' @
     ''Analyze the query and respond in JSON format:\<newline>'' @
     ''{\<newline>'' @
     ''  "needsChart": true/false,\<newline>'' @
     ''  "needsRAG": true/false,\<newline>'' @
     ''  "needsDirect": true/false,\<newline>'' @
     ''  "reasoning": "brief explanation of your decision"\<newline>'' @
     ''}\<newline>'' @
     ''\<newline>'' @
     ''Rules:\<newline>'' @
     ''- Set needsChart=true if user wants to visualize data, create a chart, or see a graph\<newline>'' @
     ''- Set needsRAG=true if user is asking a question that might be in a knowledge base\<newline>'' @
     ''- Set needsDirect=true if the query is a simple greeting, thank you, or general question\<newline>'' @
     ''- Multiple tools can be true if the query requires both charting and data retrieval\<newline>'' @
     ''\<newline>'' @
     ''Respond ONLY with valid JSON, no other text.''\<close>

text \<open>The two object literals \<^verbatim>\<open>analyzeQuery\<close> falls back to.\<close>

definition decision_unparsed :: jsval where
  "decision_unparsed =
     JObj [(''needsChart'', JBool False),
           (''needsRAG'', JBool True),
           (''needsDirect'', JBool False),
           (''reasoning'', JStr ''Could not parse LLM response, defaulting to RAG'')]"

definition decision_error :: jsval where
  "decision_error =
     JObj [(''needsChart'', JBool False),
           (''needsRAG'', JBool True),
           (''needsDirect'', JBool False),
           (''reasoning'', JStr ''Error in analysis, defaulting to RAG'')]"

text \<open>
  \<^verbatim>\<open>analyzeQuery\<close>: one completion at temperature 0.3.  Inside the \<^verbatim>\<open>try\<close>: no match
  gives the first literal, a match is parsed and returned as it is.  The \<^verbatim>\<open>catch\<close>
  (the completion threw, or \<^verbatim>\<open>JSON.parse\<close> did) gives the second literal.
\<close>

definition analyzeQuery :: "world \<Rightarrow> string \<Rightarrow> event list \<times> jsval" where
  "analyzeQuery w query =
     ([Invoke 0.3 (analysisPrompt query)],
      (case invoke w 0.3 (analysisPrompt query) of
         Inl e \<Rightarrow> decision_error
       | Inr content \<Rightarrow>
           (case jsonMatch content of
              None \<Rightarrow> decision_unparsed
            | Some region \<Rightarrow>
                (case JSON_parse w region of
                   None \<Rightarrow> decision_error
                 | Some decision \<Rightarrow> decision))))"

record response = rag_result +
  chartConfig :: jsval

definition direct_prompt :: "string \<Rightarrow> string" where
  \<open>direct_prompt query =
     ''You are a helpful AI assistant. Answer the user's query in a friendly and concise manner.\<newline>'' @
     ''\<newline>'' @
     ''User Query: '' @
     query @
     ''\<newline>'' @
     ''\<newline>'' @
     ''Answer:''\<close>

definition handleDirectAnswer :: "world \<Rightarrow> string \<Rightarrow> event list \<times> (error + response)" where
  "handleDirectAnswer w query =
     ([Invoke 0.7 (direct_prompt query)],
      (case invoke w 0.7 (direct_prompt query) of
         Inl e \<Rightarrow> Inl e
       | Inr content \<Rightarrow>
           Inr \<lparr>answer = content, fileIds = [], references = [], chartConfig = JNull\<rparr>))"

definition extractionPrompt :: "string \<Rightarrow> string" where
  \<open>extractionPrompt query =
     ''Extract chart parameters from the user's query.\<newline>'' @
     ''\<newline>'' @
     ''User Query: "'' @
     query @
     ''"\<newline>'' @
     ''\<newline>'' @
     ''Respond in JSON format:\<newline>'' @
     ''{\<newline>'' @
     ''  "chartType": "bar" | "line" | "pie" | "doughnut" | "radar",\<newline>'' @
     ''  "title": "chart title",\<newline>'' @
     ''  "labels": ["label1", "label2", ...],\<newline>'' @
     ''  "data": [number1, number2, ...]\<newline>'' @
     ''}\<newline>'' @
     ''\<newline>'' @
     ''If the user doesn't specify data, create reasonable example data.\<newline>'' @
     ''If the user doesn't specify a chart type, choose the most appropriate one.\<newline>'' @
     ''\<newline>'' @
     ''Respond ONLY with valid JSON, no other text.''\<close>

text \<open>The default chart, written out twice in the source with the same content.\<close>

definition sample_chart :: jsval where
  "sample_chart =
     JObj [(''chartType'', JStr ''bar''),
           (''title'', JStr ''Sample Chart''),
           (''labels'', JArr [JStr ''A'', JStr ''B'', JStr ''C'']),
           (''data'', JArr [JNum (Finite 10), JNum (Finite 20), JNum (Finite 15)])]"

definition extractChartParams :: "world \<Rightarrow> string \<Rightarrow> event list \<times> jsval" where
  "extractChartParams w query =
     ([Invoke 0.3 (extractionPrompt query)],
      (case invoke w 0.3 (extractionPrompt query) of
         Inl e \<Rightarrow> sample_chart
       | Inr content \<Rightarrow>
           (case jsonMatch content of
              None \<Rightarrow> sample_chart
            | Some region \<Rightarrow>
                (case JSON_parse w region of
                   None \<Rightarrow> sample_chart
                 | Some chartParams \<Rightarrow> chartParams))))"

text \<open>A settled task: \<^verbatim>\<open>{ type: 'rag' | 'chart' | 'direct', data }\<close>.\<close>

datatype capability_result =
    Rag rag_result
  | Chart jsval
  | Direct response

text \<open>
  The promises pushed to \<^verbatim>\<open>tasks\<close>, in array order, each with its outcome: the RAG agent
  when \<^verbatim>\<open>decision.needsRAG\<close> is truthy, the chart tool on the extracted parameters when
  \<^verbatim>\<open>decision.needsChart\<close> is, the direct answer when \<^verbatim>\<open>decision.needsDirect\<close> is and
  the other two are not.  \<open>chart_for\<close> is
  \<^verbatim>\<open>extractChartParams(userQuery).then(chartParams => mockGenerateChart(chartParams))\<close>.
\<close>

definition rag_task :: "world \<Rightarrow> string \<Rightarrow> string \<Rightarrow> error + capability_result" where
  "rag_task w userQuery tenant =
     (case snd (ragGenerate w userQuery tenant) of
        Inl e \<Rightarrow> Inl e
      | Inr ragResult \<Rightarrow> Inr (Rag ragResult))"

definition chart_for :: "world \<Rightarrow> string \<Rightarrow> error + jsval" where
  "chart_for w userQuery = mockGenerateChart (snd (extractChartParams w userQuery))"

definition chart_task :: "world \<Rightarrow> string \<Rightarrow> error + capability_result" where
  "chart_task w userQuery =
     (case chart_for w userQuery of
        Inl e \<Rightarrow> Inl e
      | Inr chartConfig' \<Rightarrow> Inr (Chart chartConfig'))"

definition direct_task :: "world \<Rightarrow> string \<Rightarrow> error + capability_result" where
  "direct_task w userQuery =
     (case snd (handleDirectAnswer w userQuery) of
        Inl e \<Rightarrow> Inl e
      | Inr directResult \<Rightarrow> Inr (Direct directResult))"

definition tasks :: "world \<Rightarrow> string \<Rightarrow> string \<Rightarrow> jsval \<Rightarrow> (error + capability_result) list" where
  "tasks w userQuery tenant decision =
     (if truthy (js_get decision ''needsRAG'') then [rag_task w userQuery tenant] else []) @
     (if truthy (js_get decision ''needsChart'') then [chart_task w userQuery] else []) @
     (if truthy (js_get decision ''needsDirect'')
         \<and> \<not> truthy (js_get decision ''needsRAG'')
         \<and> \<not> truthy (js_get decision ''needsChart'')
      then [direct_task w userQuery] else [])"

text \<open>
  \<^verbatim>\<open>Promise.all\<close>: fulfilled with the values in array order when every promise is
  fulfilled; otherwise rejected with the reason of the promise that rejects first in
  time.  The settlement order lists indices, earliest first; promises it does not list
  settle after the listed ones, in array order.
\<close>

fun first_rejection :: "(error + 'a) list \<Rightarrow> nat list \<Rightarrow> error option" where
  "first_rejection ps [] = None"
| "first_rejection ps (i # is) =
     (if i < length ps then
        (case ps ! i of
           Inl e \<Rightarrow> Some e
         | Inr v \<Rightarrow> first_rejection ps is)
      else first_rejection ps is)"

fun fulfilled_values :: "(error + 'a) list \<Rightarrow> 'a list" where
  "fulfilled_values [] = []"
| "fulfilled_values (Inl e # ps) = fulfilled_values ps"
| "fulfilled_values (Inr v # ps) = v # fulfilled_values ps"

definition promise_all :: "nat list \<Rightarrow> (error + 'a) list \<Rightarrow> error + 'a list" where
  "promise_all order ps =
     (case first_rejection ps (order @ [0..<length ps]) of
        Some e \<Rightarrow> Inl e
      | None \<Rightarrow> Inr (fulfilled_values ps))"

text \<open>
  Step 3 of \<^verbatim>\<open>delegateQuery\<close>.  The \<^verbatim>\<open>forEach\<close> files each result under its tag (a later
  result with the same tag overwrites an earlier one); the \<^verbatim>\<open>if\<close> chain builds the
  response from the three slots, which start as \<^verbatim>\<open>null\<close>.
\<close>

record slots =
  ragData :: "rag_result option"
  chartData :: jsval
  directData :: "response option"

fun file_result :: "slots \<Rightarrow> capability_result \<Rightarrow> slots" where
  "file_result s (Rag d) = s\<lparr>ragData := Some d\<rparr>"
| "file_result s (Chart d) = s\<lparr>chartData := d\<rparr>"
| "file_result s (Direct d) = s\<lparr>directData := Some d\<rparr>"

definition build_response :: "slots \<Rightarrow> response" where
  \<open>build_response s =
     (case ragData s of
        Some r \<Rightarrow>
          if truthy (chartData s) then
            \<lparr>answer = answer r @ ''\<newline>\<newline>I've also generated a chart visualization for you.'',
             fileIds = fileIds r, references = references r, chartConfig = chartData s\<rparr>
          else
            \<lparr>answer = answer r, fileIds = fileIds r, references = references r, chartConfig = JNull\<rparr>
      | None \<Rightarrow>
          if truthy (chartData s) then
            \<lparr>answer = ''I've generated the chart visualization as requested.'',
             fileIds = [], references = [], chartConfig = chartData s\<rparr>
          else
            (case directData s of
               Some d \<Rightarrow>
                 \<lparr>answer = answer d, fileIds = [], references = [], chartConfig = JNull\<rparr>
             | None \<Rightarrow>
                 \<lparr>answer = ''I'm not sure how to handle this query. Could you please rephrase it?'',
                  fileIds = [], references = [], chartConfig = JNull\<rparr>))\<close>

text \<open>Two results carry the same tag.\<close>

fun same_tag :: "capability_result \<Rightarrow> capability_result \<Rightarrow> bool" where
  "same_tag (Rag a) (Rag b) = True"
| "same_tag (Chart a) (Chart b) = True"
| "same_tag (Direct a) (Direct b) = True"
| "same_tag x y = False"

definition combine :: "capability_result list \<Rightarrow> response" where
  "combine results =
     build_response (foldl file_result \<lparr>ragData = None, chartData = JNull, directData = None\<rparr> results)"

text \<open>
  \<^verbatim>\<open>delegateQuery(userQuery, options)\<close>, with \<^verbatim>\<open>options.tenant\<close> as an option;
  \<open>default_tenant\<close> is \<^verbatim>\<open>const { tenant = 'tenant1' } = options\<close>.  Reading \<^verbatim>\<open>decision.reasoning\<close> throws for a
  decision that is \<^verbatim>\<open>null\<close> or \<^verbatim>\<open>undefined\<close> (the message is V8's); the \<^verbatim>\<open>catch\<close>
  rethrows whatever was thrown.
\<close>

fun default_tenant :: "string option \<Rightarrow> string" where
  "default_tenant None = ''tenant1''"
| "default_tenant (Some t) = t"

definition delegateQuery :: "world \<Rightarrow> string \<Rightarrow> string option \<Rightarrow> error + response" where
  "delegateQuery w userQuery tenant_option =
     (let tenant = default_tenant tenant_option;
          decision = snd (analyzeQuery w userQuery)
      in if decision = JNull then
           Inl (TypeError ''Cannot read properties of null (reading 'reasoning')'')
         else if decision = JUndefined then
           Inl (TypeError ''Cannot read properties of undefined (reading 'reasoning')'')
         else
           (case promise_all (settle w) (tasks w userQuery tenant decision) of
              Inl e \<Rightarrow> Inl e
            | Inr results \<Rightarrow> Inr (combine results)))"

section \<open>The agent graph\<close>

record agent_state = response +
  query :: string
  tenant :: string
  error :: "string option"
  metadata :: "(string \<times> jsval) list"

text \<open>
  \<^verbatim>\<open>delegatingNode\<close>: the state with the result's fields and two more metadata entries,
  or, when \<^verbatim>\<open>delegateQuery\<close> throws, the state with the error's message and the fixed
  answer.  (\<^verbatim>\<open>result.fileIds || []\<close> and \<^verbatim>\<open>result.references || []\<close> are the arrays
  themselves: an array is truthy.)
\<close>

definition delegatingNode :: "world \<Rightarrow> agent_state \<Rightarrow> agent_state" where
  "delegatingNode w state =
     (case delegateQuery w (query state) (Some (tenant state)) of
        Inr result \<Rightarrow>
          state\<lparr>answer := answer result,
                fileIds := fileIds result,
                references := references result,
                chartConfig := js_or (chartConfig result) JNull,
                metadata := set_prop ''timestamp'' (JStr (timestamp w))
                              (set_prop ''processed'' (JBool True) (metadata state))\<rparr>
      | Inl e \<Rightarrow>
          state\<lparr>error := Some (message e),
                answer := ''I encountered an error processing your request. Please try again.''\<rparr>)"

text \<open>
  The compiled graph has one node between START and END and one channel per field, each
  with the reducer \<^verbatim>\<open>(x, y) => y ?? x\<close> and the default written beside it.  Invoking it
  writes the input into the channels, runs the node on the channel values and writes what
  the node returns; the result is the channel values.  (This is the library's behaviour
  for such a graph; the library is not part of the repository.)
\<close>

definition channel_defaults :: agent_state where
  "channel_defaults =
     \<lparr>answer = [], fileIds = [], references = [], chartConfig = JNull,
      query = [], tenant = ''tenant1'', error = None, metadata = []\<rparr>"

definition write_channels :: "agent_state \<Rightarrow> agent_state \<Rightarrow> agent_state" where
  "write_channels x y =
     \<lparr>answer = answer y, fileIds = fileIds y, references = references y,
      chartConfig = (if nullish (chartConfig y) then chartConfig x else chartConfig y),
      query = query y, tenant = tenant y,
      error = (case error y of None \<Rightarrow> error x | Some m \<Rightarrow> Some m),
      metadata = metadata y\<rparr>"

definition app_invoke :: "world \<Rightarrow> agent_state \<Rightarrow> agent_state" where
  "app_invoke w initialState =
     (let state = write_channels channel_defaults initialState
      in write_channels state (delegatingNode w state))"

text \<open>
  \<^verbatim>\<open>runAgentGraph(query, options)\<close>.  Its \<^verbatim>\<open>catch\<close> rethrows; nothing in the
  \<^verbatim>\<open>try\<close> throws here, since the node catches what \<^verbatim>\<open>delegateQuery\<close> throws.
\<close>

definition runAgentGraph :: "world \<Rightarrow> string \<Rightarrow> string option \<Rightarrow> error + agent_state" where
  "runAgentGraph w userQuery tenant_option =
     (let tenant' = default_tenant tenant_option;
          initialState =
            \<lparr>answer = [], fileIds = [], references = [], chartConfig = JNull,
             query = userQuery, tenant = tenant', error = None,
             metadata = [(''startTime'', JStr (startTime w))]\<rparr>
      in Inr (app_invoke w initialState))"

section \<open>A JSON reader, for concrete worlds\<close>

text \<open>
  The theorems below hold for every world.  To run the agents on a concrete completion a
  world needs a concrete \<open>JSON_parse\<close>; \<open>json_parse\<close> reads the JSON grammar
  (ECMA-404) in one pass over the characters and one over the tokens.  It gives a number
  its exact value and a \<^verbatim>\<open>\u\<close> escape the character of that code, so it stands for
  \<^verbatim>\<open>JSON.parse\<close> on texts whose numbers are doubles and whose escapes stay below code
  256; other escapes are outside the 8-bit characters used here and are refused.
\<close>

datatype token =
    TLBrace | TRBrace | TLBracket | TRBracket | TColon | TComma
  | TString string
  | TScalar jsval

datatype lexmode =
    LStart
  | LString string
  | LEscape string
  | LUnicode string string
  | LNumber string
  | LWord string

definition is_digit :: "char \<Rightarrow> bool" where
  "is_digit c = (48 \<le> (of_char c :: nat) \<and> (of_char c :: nat) \<le> 57)"

definition is_lower :: "char \<Rightarrow> bool" where
  "is_lower c = (97 \<le> (of_char c :: nat) \<and> (of_char c :: nat) \<le> 122)"

definition hex_value :: "char \<Rightarrow> nat option" where
  "hex_value c =
     (let n = (of_char c :: nat)
      in if 48 \<le> n \<and> n \<le> 57 then Some (n - 48)
         else if 65 \<le> n \<and> n \<le> 70 then Some (n - 55)
         else if 97 \<le> n \<and> n \<le> 102 then Some (n - 87)
         else None)"

definition nat_of_digits :: "string \<Rightarrow> nat" where
  "nat_of_digits ds = foldl (\<lambda>n c. 10 * n + ((of_char c :: nat) - 48)) 0 ds"

definition nat_of_hex :: "string \<Rightarrow> nat" where
  "nat_of_hex ds = foldl (\<lambda>n c. 16 * n + (case hex_value c of Some v \<Rightarrow> v | None \<Rightarrow> 0)) 0 ds"

text \<open>The exponent part of a number: empty, or \<^verbatim>\<open>e\<close>, an optional sign and digits.\<close>

definition exponent_of :: "string \<Rightarrow> int option" where
  "exponent_of s =
     (case s of
        [] \<Rightarrow> Some 0
      | c # r \<Rightarrow>
          if c = CHR ''e'' \<or> c = CHR ''E'' then
            (case r of
               [] \<Rightarrow> None
             | d # ds \<Rightarrow>
                 if d = CHR ''+'' then
                   (if ds \<noteq> [] \<and> list_all is_digit ds then Some (int (nat_of_digits ds)) else None)
                 else if d = CHR ''-'' then
                   (if ds \<noteq> [] \<and> list_all is_digit ds then Some (- int (nat_of_digits ds)) else None)
                 else
                   (if list_all is_digit r then Some (int (nat_of_digits r)) else None))
          else None)"

text \<open>An unsigned number: integer part without a leading zero, optional fraction, optional exponent.\<close>

definition unsigned_number_of :: "string \<Rightarrow> rat option" where
  "unsigned_number_of s =
     (let ip = takeWhile is_digit s; s2 = dropWhile is_digit s
      in if ip = [] \<or> (1 < length ip \<and> hd ip = CHR ''0'') then None
         else
           (let fp = (case s2 of
                        [] \<Rightarrow> Some ([], [])
                      | c # r \<Rightarrow>
                          if c = CHR ''.'' then
                            (if takeWhile is_digit r = [] then None
                             else Some (takeWhile is_digit r, dropWhile is_digit r))
                          else Some ([], s2))
            in case fp of
                 None \<Rightarrow> None
               | Some (fd, s3) \<Rightarrow>
                   (case exponent_of s3 of
                      None \<Rightarrow> None
                    | Some e \<Rightarrow>
                        (let m = of_nat (nat_of_digits (ip @ fd)) / 10 ^ length fd
                         in Some (if 0 \<le> e then m * 10 ^ nat e else m / 10 ^ nat (- e))))))"

definition number_of :: "string \<Rightarrow> jsval option" where
  "number_of s =
     (case s of
        [] \<Rightarrow> None
      | c # r \<Rightarrow>
          if c = CHR ''-'' then map_option (\<lambda>x. JNum (Finite (- x))) (unsigned_number_of r)
          else map_option (\<lambda>x. JNum (Finite x)) (unsigned_number_of s))"

definition word_of :: "string \<Rightarrow> jsval option" where
  "word_of s =
     (if s = ''true'' then Some (JBool True)
      else if s = ''false'' then Some (JBool False)
      else if s = ''null'' then Some JNull
      else None)"

text \<open>One character outside a string, number or word.\<close>

definition lex_start :: "char \<Rightarrow> (token list \<times> lexmode) option" where
  "lex_start c =
     (if c = CHR '' '' \<or> c = CHR 9 \<or> c = CHR 10 \<or> c = CHR 13 then Some ([], LStart)
      else if c = CHR ''{'' then Some ([TLBrace], LStart)
      else if c = CHR ''}'' then Some ([TRBrace], LStart)
      else if c = CHR ''['' then Some ([TLBracket], LStart)
      else if c = CHR '']'' then Some ([TRBracket], LStart)
      else if c = CHR '':'' then Some ([TColon], LStart)
      else if c = CHR '','' then Some ([TComma], LStart)
      else if c = CHR 34 then Some ([], LString [])
      else if c = CHR ''-'' \<or> is_digit c then Some ([], LNumber [c])
      else if is_lower c then Some ([], LWord [c])
      else None)"

definition lex_escape :: "string \<Rightarrow> char \<Rightarrow> (token list \<times> lexmode) option" where
  "lex_escape acc c =
     (if c = CHR 34 \<or> c = CHR 92 \<or> c = CHR ''/'' then Some ([], LString (acc @ [c]))
      else if c = CHR ''b'' then Some ([], LString (acc @ [CHR 8]))
      else if c = CHR ''f'' then Some ([], LString (acc @ [CHR 12]))
      else if c = CHR ''n'' then Some ([], LString (acc @ [CHR 10]))
      else if c = CHR ''r'' then Some ([], LString (acc @ [CHR 13]))
      else if c = CHR ''t'' then Some ([], LString (acc @ [CHR 9]))
      else if c = CHR ''u'' then Some ([], LUnicode acc [])
      else None)"

fun lex_step :: "lexmode \<Rightarrow> char \<Rightarrow> (token list \<times> lexmode) option" where
  "lex_step LStart c = lex_start c"
| "lex_step (LString acc) c =
     (if c = CHR 34 then Some ([TString acc], LStart)
      else if c = CHR 92 then Some ([], LEscape acc)
      else if (of_char c :: nat) < 32 then None
      else Some ([], LString (acc @ [c])))"
| "lex_step (LEscape acc) c = lex_escape acc c"
| "lex_step (LUnicode acc hs) c =
     (if hex_value c = None then None
      else if length hs < 3 then Some ([], LUnicode acc (hs @ [c]))
      else if nat_of_hex (hs @ [c]) < 256 then Some ([], LString (acc @ [char_of (nat_of_hex (hs @ [c]))]))
      else None)"
| "lex_step (LNumber acc) c =
     (if is_digit c \<or> c = CHR ''.'' \<or> c = CHR ''e'' \<or> c = CHR ''E'' \<or> c = CHR ''+'' \<or> c = CHR ''-''
      then Some ([], LNumber (acc @ [c]))
      else
        (case number_of acc of
           None \<Rightarrow> None
         | Some v \<Rightarrow>
             (case lex_start c of
                None \<Rightarrow> None
              | Some (ts, m) \<Rightarrow> Some (TScalar v # ts, m))))"
| "lex_step (LWord acc) c =
     (if is_lower c then Some ([], LWord (acc @ [c]))
      else
        (case word_of acc of
           None \<Rightarrow> None
         | Some v \<Rightarrow>
             (case lex_start c of
                None \<Rightarrow> None
              | Some (ts, m) \<Rightarrow> Some (TScalar v # ts, m))))"

fun lex_end :: "lexmode \<Rightarrow> token list option" where
  "lex_end LStart = Some []"
| "lex_end (LNumber acc) = map_option (\<lambda>v. [TScalar v]) (number_of acc)"
| "lex_end (LWord acc) = map_option (\<lambda>v. [TScalar v]) (word_of acc)"
| "lex_end m = None"

fun tokenize :: "lexmode \<Rightarrow> string \<Rightarrow> token list option" where
  "tokenize m [] = lex_end m"
| "tokenize m (c # cs) =
     (case lex_step m c of
        None \<Rightarrow> None
      | Some (ts, m') \<Rightarrow> map_option (append ts) (tokenize m' cs))"

text \<open>
  The tokens are read with a stack of the arrays and objects that are still open; an
  object frame holds the key that waits for its value.
\<close>

datatype frame =
    FArr "jsval list"
  | FObj "(string \<times> jsval) list"
  | FKey "(string \<times> jsval) list" string

datatype pmode = PValue | PArrFirst | PObjFirst | PKey | PColon | PAfter | PDone jsval

fun complete :: "jsval \<Rightarrow> frame list \<Rightarrow> (pmode \<times> frame list) option" where
  "complete v [] = Some (PDone v, [])"
| "complete v (FArr xs # st) = Some (PAfter, FArr (xs @ [v]) # st)"
| "complete v (FKey ps k # st) = Some (PAfter, FObj (set_prop k v ps) # st)"
| "complete v (FObj ps # st) = None"

fun open_value :: "token \<Rightarrow> frame list \<Rightarrow> (pmode \<times> frame list) option" where
  "open_value (TScalar v) st = complete v st"
| "open_value (TString s) st = complete (JStr s) st"
| "open_value TLBracket st = Some (PArrFirst, FArr [] # st)"
| "open_value TLBrace st = Some (PObjFirst, FObj [] # st)"
| "open_value t st = None"

fun take_key :: "token \<Rightarrow> frame list \<Rightarrow> (pmode \<times> frame list) option" where
  "take_key (TString k) (FObj ps # st) = Some (PColon, FKey ps k # st)"
| "take_key t st = None"

fun close_array :: "frame list \<Rightarrow> (pmode \<times> frame list) option" where
  "close_array (FArr xs # st) = complete (JArr xs) st"
| "close_array st = None"

fun close_object :: "frame list \<Rightarrow> (pmode \<times> frame list) option" where
  "close_object (FObj ps # st) = complete (JObj ps) st"
| "close_object st = None"

fun parse_step :: "pmode \<Rightarrow> frame list \<Rightarrow> token \<Rightarrow> (pmode \<times> frame list) option" where
  "parse_step PValue st t = open_value t st"
| "parse_step PArrFirst st t = (case t of TRBracket \<Rightarrow> close_array st | _ \<Rightarrow> open_value t st)"
| "parse_step PObjFirst st t = (case t of TRBrace \<Rightarrow> close_object st | _ \<Rightarrow> take_key t st)"
| "parse_step PKey st t = take_key t st"
| "parse_step PColon st t = (case t of TColon \<Rightarrow> Some (PValue, st) | _ \<Rightarrow> None)"
| "parse_step PAfter st t =
     (case st of
        FArr xs # r \<Rightarrow>
          (case t of TComma \<Rightarrow> Some (PValue, st) | TRBracket \<Rightarrow> close_array st | _ \<Rightarrow> None)
      | FObj ps # r \<Rightarrow>
          (case t of TComma \<Rightarrow> Some (PKey, st) | TRBrace \<Rightarrow> close_object st | _ \<Rightarrow> None)
      | _ \<Rightarrow> None)"
| "parse_step (PDone v) st t = None"

fun parse_tokens :: "pmode \<Rightarrow> frame list \<Rightarrow> token list \<Rightarrow> jsval option" where
  "parse_tokens m st [] = (case m of PDone v \<Rightarrow> Some v | _ \<Rightarrow> None)"
| "parse_tokens m st (t # ts) =
     (case parse_step m st t of
        None \<Rightarrow> None
      | Some (m', st') \<Rightarrow> parse_tokens m' st' ts)"

definition json_parse :: "string \<Rightarrow> jsval option" where
  "json_parse s =
     (case tokenize LStart s of
        None \<Rightarrow> None
      | Some ts \<Rightarrow> parse_tokens PValue [] ts)"

section \<open>Concrete worlds\<close>

text \<open>
  A store that connects and closes without failure, a language model given as a function,
  \<open>json_parse\<close> for \<^verbatim>\<open>JSON.parse\<close>, promises settling in array order.
\<close>

definition sample_world ::
  "(rat \<Rightarrow> string \<Rightarrow> error + string) \<Rightarrow> (request \<Rightarrow> error + weaviate_object list option) \<Rightarrow> world" where
  "sample_world llm store =
     \<lparr>invoke = llm, JSON_parse = json_parse,
      connectToLocal = (\<lambda>rq. Inr ()), run_request = store, close = (\<lambda>rq. Inr ()),
      settle = [],
      startTime = ''2025-01-01T00:00:00.000Z'', timestamp = ''2025-01-01T00:00:01.000Z''\<rparr>"

text \<open>
  A language model that answers by the kind of prompt: \<open>a\<close> to the routing prompt,
  \<open>c\<close> to the chart-extraction prompt, \<open>r\<close> to the RAG prompt (temperature 0.5),
  \<open>d\<close> to the direct-answer prompt (temperature 0.7).
\<close>

definition scripted_llm :: "string \<Rightarrow> string \<Rightarrow> string \<Rightarrow> string \<Rightarrow> rat \<Rightarrow> string \<Rightarrow> error + string" where
  "scripted_llm a c r d temperature prompt =
     Inr (if temperature = 0.5 then r
          else if temperature = 0.7 then d
          else if take 7 prompt = ''Extract'' then c
          else a)"

text \<open>A language model with one reply to every prompt, and one that always fails.\<close>

definition constant_llm :: "string \<Rightarrow> rat \<Rightarrow> string \<Rightarrow> error + string" where
  "constant_llm c temperature prompt = Inr c"

definition failing_llm :: "string \<Rightarrow> rat \<Rightarrow> string \<Rightarrow> error + string" where
  "failing_llm m temperature prompt = Inl (Error m)"

text \<open>A language model whose routing and extraction replies arrive but whose answers fail.\<close>

definition answer_failing_llm :: "string \<Rightarrow> string \<Rightarrow> string \<Rightarrow> rat \<Rightarrow> string \<Rightarrow> error + string" where
  "answer_failing_llm a c m temperature prompt =
     (if temperature = 0.3 then scripted_llm a c [] [] temperature prompt else Inl (Error m))"

definition france :: weaviate_object where
  "france = \<lparr>properties = \<lparr>fileId = ''FILE-001'',
                           question = ''What is the capital of France?'',
                           answer = ''The capital of France is Paris.''\<rparr>\<rparr>"

definition paris :: weaviate_object where
  "paris = \<lparr>properties = \<lparr>fileId = ''FILE-001'',
                          question = ''Which river runs through Paris?'',
                          answer = ''The Seine.''\<rparr>\<rparr>"

definition photosynthesis :: weaviate_object where
  "photosynthesis = \<lparr>properties = \<lparr>fileId = ''FILE-002'',
                                   question = ''What is photosynthesis?'',
                                   answer = ''The process by which plants turn light into energy.''\<rparr>\<rparr>"

text \<open>A store whose keyword search finds \<open>found\<close> and whose full scan gives \<open>everything\<close>.\<close>

fun sample_store :: "weaviate_object list \<Rightarrow> weaviate_object list \<Rightarrow> request \<Rightarrow> error + weaviate_object list option" where
  "sample_store found everything (Bm25 tn q limit) = Inr (Some (take limit found))"
| "sample_store found everything (FetchObjects tn limit) = Inr (Some (take limit everything))"

section \<open>The chart extractor\<close>

lemma generateChartConfig_shows:
  assumes "params \<noteq> JNull" "params \<noteq> JUndefined"
  shows "map_sum id config_labels (generateChartConfig params) =
           Inr (js_or (js_get params ''labels'') (JArr [JStr ''Label 1'', JStr ''Label 2'', JStr ''Label 3'']))"
    and "map_sum id config_data (generateChartConfig params) =
           Inr (js_or (js_get params ''data'') (JArr [JNum (Finite 12), JNum (Finite 19), JNum (Finite 3)]))"
  using assms by (simp_all add: generateChartConfig_def config_labels_def config_data_def Let_def)

lemma sample_chart_shows:
  "map_sum id config_labels (generateChartConfig sample_chart) = Inr (JArr [JStr ''A'', JStr ''B'', JStr ''C''])"
  "map_sum id config_data (generateChartConfig sample_chart) =
     Inr (JArr [JNum (Finite 10), JNum (Finite 20), JNum (Finite 15)])"
  "map_sum id (\<lambda>config. js_get config ''type'') (generateChartConfig sample_chart) = Inr (JStr ''bar'')"
  by (simp_all add: generateChartConfig_def config_labels_def config_data_def Let_def sample_chart_def js_or_def)

lemma chart_for_fallback:
  assumes "invoke w 0.3 (extractionPrompt q) = Inl e
           \<or> (\<exists>content. invoke w 0.3 (extractionPrompt q) = Inr content
                 \<and> (jsonMatch content = None
                    \<or> (\<exists>region. jsonMatch content = Some region \<and> JSON_parse w region = None)))"
  shows "chart_for w q = generateChartConfig sample_chart"
  using assms by (auto simp: chart_for_def extractChartParams_def mockGenerateChart_def)

lemma chart_for_parsed:
  assumes "invoke w 0.3 (extractionPrompt q) = Inr content" "jsonMatch content = Some region"
    "JSON_parse w region = Some params"
  shows "chart_for w q = generateChartConfig params"
  using assms by (simp add: chart_for_def extractChartParams_def mockGenerateChart_def)

text \<open>
  C1, as the code has it.  The extractor compares no lengths.  When the completion
  request fails, the completion has no region, or the region does not parse, the chart is
  generated from the fixed placeholder (bar chart, labels A, B, C, data 10, 20, 15, three
  of each).  When the region parses, the chart carries the parsed \<^verbatim>\<open>labels\<close> and
  \<^verbatim>\<open>data\<close> as they are, whatever their lengths (a missing or falsy one is replaced by
  the generator's own default).
\<close>

theorem chart_for_no_length_check:
  "((invoke w 0.3 (extractionPrompt q) = Inl e
      \<or> (\<exists>content. invoke w 0.3 (extractionPrompt q) = Inr content
            \<and> (jsonMatch content = None
               \<or> (\<exists>region. jsonMatch content = Some region \<and> JSON_parse w region = None)))) \<longrightarrow>
     map_sum id (\<lambda>config. js_get config ''type'') (chart_for w q) = Inr (JStr ''bar'')
     \<and> map_sum id config_labels (chart_for w q) = Inr (JArr [JStr ''A'', JStr ''B'', JStr ''C''])
     \<and> map_sum id config_data (chart_for w q) =
          Inr (JArr [JNum (Finite 10), JNum (Finite 20), JNum (Finite 15)])
     \<and> map_sum id (array_length \<circ> config_labels) (chart_for w q) = Inr (Some 3)
     \<and> map_sum id (array_length \<circ> config_data) (chart_for w q) = Inr (Some 3))
   \<and> (invoke w 0.3 (extractionPrompt q) = Inr content' \<longrightarrow> jsonMatch content' = Some region' \<longrightarrow>
      JSON_parse w region' = Some params \<longrightarrow> params \<noteq> JNull \<longrightarrow> params \<noteq> JUndefined \<longrightarrow>
      map_sum id config_labels (chart_for w q) =
        Inr (js_or (js_get params ''labels'') (JArr [JStr ''Label 1'', JStr ''Label 2'', JStr ''Label 3'']))
      \<and> map_sum id config_data (chart_for w q) =
        Inr (js_or (js_get params ''data'') (JArr [JNum (Finite 12), JNum (Finite 19), JNum (Finite 3)])))"
proof (intro conjI impI)
  assume f: "invoke w 0.3 (extractionPrompt q) = Inl e
      \<or> (\<exists>content. invoke w 0.3 (extractionPrompt q) = Inr content
            \<and> (jsonMatch content = None
               \<or> (\<exists>region. jsonMatch content = Some region \<and> JSON_parse w region = None)))"
  have c: "chart_for w q = generateChartConfig sample_chart"
    using f by (rule chart_for_fallback)
  show "map_sum id (\<lambda>config. js_get config ''type'') (chart_for w q) = Inr (JStr ''bar'')"
    by (simp only: c sample_chart_shows)
  show l: "map_sum id config_labels (chart_for w q) = Inr (JArr [JStr ''A'', JStr ''B'', JStr ''C''])"
    by (simp only: c sample_chart_shows)
  show d: "map_sum id config_data (chart_for w q) =
          Inr (JArr [JNum (Finite 10), JNum (Finite 20), JNum (Finite 15)])"
    by (simp only: c sample_chart_shows)
  from l show "map_sum id (array_length \<circ> config_labels) (chart_for w q) = Inr (Some 3)"
    by (cases "chart_for w q") auto
  from d show "map_sum id (array_length \<circ> config_data) (chart_for w q) = Inr (Some 3)"
    by (cases "chart_for w q") auto
next
  assume p: "invoke w 0.3 (extractionPrompt q) = Inr content'" "jsonMatch content' = Some region'"
    "JSON_parse w region' = Some params" and n: "params \<noteq> JNull" "params \<noteq> JUndefined"
  have c: "chart_for w q = generateChartConfig params"
    using p by (rule chart_for_parsed)
  show "map_sum id config_labels (chart_for w q) =
        Inr (js_or (js_get params ''labels'') (JArr [JStr ''Label 1'', JStr ''Label 2'', JStr ''Label 3'']))"
    by (simp only: c generateChartConfig_shows [OF n])
  show "map_sum id config_data (chart_for w q) =
        Inr (js_or (js_get params ''data'') (JArr [JNum (Finite 12), JNum (Finite 19), JNum (Finite 3)]))"
    by (simp only: c generateChartConfig_shows [OF n])
qed

lemma mismatched_parse:
  \<open>json_parse ''{"chartType":"bar","title":"Sales","labels":["Jan","Feb"],"data":[100]}'' =
     Some (JObj [(''chartType'', JStr ''bar''), (''title'', JStr ''Sales''),
                 (''labels'', JArr [JStr ''Jan'', JStr ''Feb'']),
                 (''data'', JArr [JNum (Finite 100)])])\<close>
  by code_simp

lemma mismatched_match:
  \<open>jsonMatch ''{"chartType":"bar","title":"Sales","labels":["Jan","Feb"],"data":[100]}'' =
     Some ''{"chartType":"bar","title":"Sales","labels":["Jan","Feb"],"data":[100]}''\<close>
  by simp

text \<open>A failing language model, and one that extracts two labels and one number.\<close>

theorem chart_for_no_length_check_witness:
  \<open>map_sum id config_labels
      (chart_for (sample_world (failing_llm ''429 quota exceeded'') (sample_store [] [])) ''a bar chart'')
     = Inr (JArr [JStr ''A'', JStr ''B'', JStr ''C''])
   \<and> map_sum id config_data
      (chart_for (sample_world (failing_llm ''429 quota exceeded'') (sample_store [] [])) ''a bar chart'')
     = Inr (JArr [JNum (Finite 10), JNum (Finite 20), JNum (Finite 15)])
   \<and> map_sum id config_labels
      (chart_for (sample_world
          (constant_llm ''{"chartType":"bar","title":"Sales","labels":["Jan","Feb"],"data":[100]}'')
          (sample_store [] [])) ''a bar chart'')
     = Inr (JArr [JStr ''Jan'', JStr ''Feb''])
   \<and> map_sum id config_data
      (chart_for (sample_world
          (constant_llm ''{"chartType":"bar","title":"Sales","labels":["Jan","Feb"],"data":[100]}'')
          (sample_store [] [])) ''a bar chart'')
     = Inr (JArr [JNum (Finite 100)])\<close>
proof -
  let ?T = \<open>''{"chartType":"bar","title":"Sales","labels":["Jan","Feb"],"data":[100]}''\<close>
  let ?P = "JObj [(''chartType'', JStr ''bar''), (''title'', JStr ''Sales''),
                 (''labels'', JArr [JStr ''Jan'', JStr ''Feb'']),
                 (''data'', JArr [JNum (Finite 100)])]"
  let ?w1 = "sample_world (failing_llm ''429 quota exceeded'') (sample_store [] [])"
  let ?w2 = "sample_world (constant_llm ?T) (sample_store [] [])"
  have h1: "invoke ?w1 0.3 (extractionPrompt ''a bar chart'') = Inl (Error ''429 quota exceeded'')"
    by (simp add: sample_world_def failing_llm_def)
  have h2: "invoke ?w2 0.3 (extractionPrompt ''a bar chart'') = Inr ?T"
    by (simp add: sample_world_def constant_llm_def)
  have p2: "JSON_parse ?w2 ?T = Some ?P"
    by (simp add: sample_world_def mismatched_parse)
  have l: "js_or (js_get ?P ''labels'') (JArr [JStr ''Label 1'', JStr ''Label 2'', JStr ''Label 3''])
            = JArr [JStr ''Jan'', JStr ''Feb'']"
    by (simp add: js_or_def)
  have d: "js_or (js_get ?P ''data'') (JArr [JNum (Finite 12), JNum (Finite 19), JNum (Finite 3)])
            = JArr [JNum (Finite 100)]"
    by (simp add: js_or_def)
  from chart_for_no_length_check [of ?w1 "''a bar chart''" "Error ''429 quota exceeded''"] h1
  have r1: "map_sum id config_labels (chart_for ?w1 ''a bar chart'') = Inr (JArr [JStr ''A'', JStr ''B'', JStr ''C''])
     \<and> map_sum id config_data (chart_for ?w1 ''a bar chart'') =
          Inr (JArr [JNum (Finite 10), JNum (Finite 20), JNum (Finite 15)])"
    by blast
  from chart_for_no_length_check [of ?w2 "''a bar chart''" _ ?T ?T ?P] h2 p2 mismatched_match
  have r2: "map_sum id config_labels (chart_for ?w2 ''a bar chart'') =
        Inr (js_or (js_get ?P ''labels'') (JArr [JStr ''Label 1'', JStr ''Label 2'', JStr ''Label 3'']))
      \<and> map_sum id config_data (chart_for ?w2 ''a bar chart'') =
        Inr (js_or (js_get ?P ''data'') (JArr [JNum (Finite 12), JNum (Finite 19), JNum (Finite 3)]))"
    by blast
  from r1 r2 show ?thesis unfolding l d by blast
qed

text \<open>
  C1, as the specification words it, fails: an extraction with two labels and one number
  is returned as it is, and the chart has label and data sequences of lengths 2 and 1.
\<close>

theorem chart_lengths_counterexample:
  \<open>map_sum id config_labels
      (chart_for (sample_world
          (constant_llm ''{"chartType":"bar","title":"Sales","labels":["Jan","Feb"],"data":[100]}'')
          (sample_store [] [])) ''a bar chart'')
     = Inr (JArr [JStr ''Jan'', JStr ''Feb''])
   \<and> map_sum id config_data
      (chart_for (sample_world
          (constant_llm ''{"chartType":"bar","title":"Sales","labels":["Jan","Feb"],"data":[100]}'')
          (sample_store [] [])) ''a bar chart'')
     = Inr (JArr [JNum (Finite 100)])
   \<and> array_length (JArr [JStr ''Jan'', JStr ''Feb'']) = Some 2
   \<and> array_length (JArr [JNum (Finite 100)]) = Some 1
   \<and> array_length (JArr [JStr ''Jan'', JStr ''Feb'']) \<noteq> array_length (JArr [JNum (Finite 100)])\<close>
proof -
  let ?T = \<open>''{"chartType":"bar","title":"Sales","labels":["Jan","Feb"],"data":[100]}''\<close>
  let ?P = "JObj [(''chartType'', JStr ''bar''), (''title'', JStr ''Sales''),
                 (''labels'', JArr [JStr ''Jan'', JStr ''Feb'']),
                 (''data'', JArr [JNum (Finite 100)])]"
  let ?w = "sample_world (constant_llm ?T) (sample_store [] [])"
  have c: "chart_for ?w ''a bar chart'' = generateChartConfig ?P"
    by (simp add: chart_for_def extractChartParams_def mockGenerateChart_def sample_world_def
          constant_llm_def mismatched_match mismatched_parse del: jsonMatch.simps)
  have "map_sum id config_labels (generateChartConfig ?P) = Inr (JArr [JStr ''Jan'', JStr ''Feb''])"
    by (simp add: generateChartConfig_def config_labels_def Let_def js_or_def)
  moreover have "map_sum id config_data (generateChartConfig ?P) = Inr (JArr [JNum (Finite 100)])"
    by (simp add: generateChartConfig_def config_data_def Let_def js_or_def)
  ultimately show ?thesis unfolding c by simp
qed

section \<open>The parsed region\<close>

lemma dropWhile_snoc:
  "dropWhile P (xs @ [a]) =
     (if list_all P xs then (if P a then [] else [a]) else dropWhile P xs @ [a])"
  by (induction xs) simp_all

lemma list_all_noteq: "list_all (\<lambda>x. x \<noteq> c) xs = (c \<notin> set xs)"
  by (induction xs) auto

lemma in_set_upto_last:
  "upto_last c xs = (if c \<in> set xs then Some (rev (dropWhile (\<lambda>x. x \<noteq> c) (rev xs))) else None)"
  by (induction xs) (simp_all add: dropWhile_snoc list_all_noteq)

lemma jsonMatch_no_close: "CHR ''}'' \<notin> set xs \<Longrightarrow> jsonMatch xs = None"
  by (induction xs) (simp_all add: in_set_upto_last)

lemma jsonMatch_region:
  "jsonMatch s =
     (let t = dropWhile (\<lambda>c. c \<noteq> CHR ''{'') s
      in if CHR ''}'' \<in> set (drop 1 t)
         then Some (rev (dropWhile (\<lambda>c. c \<noteq> CHR ''}'') (rev t)))
         else None)"
proof (induction s)
  case Nil
  show ?case by simp
next
  case (Cons a s)
  show ?case
  proof (cases "a = CHR ''{''")
    case True
    then show ?thesis
      by (simp add: in_set_upto_last jsonMatch_no_close dropWhile_snoc list_all_noteq)
  next
    case False
    with Cons show ?thesis by simp
  qed
qed

lemma analyzeQuery_parses_region:
  "invoke w 0.3 (analysisPrompt q) = Inr content \<Longrightarrow> jsonMatch content = Some region \<Longrightarrow>
   snd (analyzeQuery w q) = (case JSON_parse w region of None \<Rightarrow> decision_error | Some decision \<Rightarrow> decision)"
  by (simp add: analyzeQuery_def)

lemma extractChartParams_parses_region:
  "invoke w 0.3 (extractionPrompt q) = Inr content \<Longrightarrow> jsonMatch content = Some region \<Longrightarrow>
   snd (extractChartParams w q) = (case JSON_parse w region of None \<Rightarrow> sample_chart | Some chartParams \<Rightarrow> chartParams)"
  by (simp add: extractChartParams_def)

text \<open>
  C2, as the code has it.  The region that both the classifier and the chart extractor
  select is the greedy match of the pattern: it starts at the first opening brace of the
  completion and ends at the last closing brace after it (and there is none when no
  closing brace follows the first opening one).  That region alone is handed to
  \<^verbatim>\<open>JSON.parse\<close>, so the candidate is a function of the completion text only.  For the
  text \<^verbatim>\<open>{"a":1} trailing {"b":2}\<close> the region is the whole text.
\<close>

theorem parsed_region_first_to_last_brace:
  \<open>jsonMatch content =
     (let t = dropWhile (\<lambda>c. c \<noteq> CHR ''{'') content
      in if CHR ''}'' \<in> set (drop 1 t)
         then Some (rev (dropWhile (\<lambda>c. c \<noteq> CHR ''}'') (rev t)))
         else None)
   \<and> (invoke w 0.3 (analysisPrompt q) = Inr content \<longrightarrow> jsonMatch content = Some region \<longrightarrow>
        snd (analyzeQuery w q) =
          (case JSON_parse w region of None \<Rightarrow> decision_error | Some decision \<Rightarrow> decision))
   \<and> (invoke w 0.3 (extractionPrompt q) = Inr content \<longrightarrow> jsonMatch content = Some region \<longrightarrow>
        snd (extractChartParams w q) =
          (case JSON_parse w region of None \<Rightarrow> sample_chart | Some chartParams \<Rightarrow> chartParams))
   \<and> jsonMatch ''{"a":1} trailing {"b":2}'' = Some ''{"a":1} trailing {"b":2}''\<close>
proof (intro conjI impI)
  show "jsonMatch content =
     (let t = dropWhile (\<lambda>c. c \<noteq> CHR ''{'') content
      in if CHR ''}'' \<in> set (drop 1 t)
         then Some (rev (dropWhile (\<lambda>c. c \<noteq> CHR ''}'') (rev t)))
         else None)"
    by (rule jsonMatch_region)
next
  assume "invoke w 0.3 (analysisPrompt q) = Inr content" "jsonMatch content = Some region"
  then show "snd (analyzeQuery w q) =
          (case JSON_parse w region of None \<Rightarrow> decision_error | Some decision \<Rightarrow> decision)"
    by (rule analyzeQuery_parses_region)
next
  assume "invoke w 0.3 (extractionPrompt q) = Inr content" "jsonMatch content = Some region"
  then show "snd (extractChartParams w q) =
          (case JSON_parse w region of None \<Rightarrow> sample_chart | Some chartParams \<Rightarrow> chartParams)"
    by (rule extractChartParams_parses_region)
next
  show \<open>jsonMatch ''{"a":1} trailing {"b":2}'' = Some ''{"a":1} trailing {"b":2}''\<close>
    by simp
qed

text \<open>
  A completion with two objects: the region is the whole text, it does not parse, and
  both agents fall back.
\<close>

theorem parsed_region_first_to_last_brace_witness:
  \<open>snd (analyzeQuery (sample_world (constant_llm ''{"a":1} trailing {"b":2}'') (sample_store [] [])) ''hi'')
     = decision_error
   \<and> snd (extractChartParams (sample_world (constant_llm ''{"a":1} trailing {"b":2}'') (sample_store [] [])) ''hi'')
     = sample_chart\<close>
proof -
  let ?T = \<open>''{"a":1} trailing {"b":2}''\<close>
  let ?w = "sample_world (constant_llm ?T) (sample_store [] [])"
  have m: "jsonMatch ?T = Some ?T" by simp
  have p: "JSON_parse ?w ?T = None" unfolding sample_world_def by (simp, code_simp)
  have a: "invoke ?w 0.3 (analysisPrompt ''hi'') = Inr ?T"
    by (simp add: sample_world_def constant_llm_def)
  have c: "invoke ?w 0.3 (extractionPrompt ''hi'') = Inr ?T"
    by (simp add: sample_world_def constant_llm_def)
  from parsed_region_first_to_last_brace [of ?T ?w "''hi''" ?T] a c m p
  show ?thesis by simp
qed

text \<open>
  C2, as the specification words it, fails on that text: the first balanced region is
  \<^verbatim>\<open>{"a":1}\<close>, which parses, but the region selected is the whole text, which does not,
  and the classifier answers with its fallback.
\<close>

theorem first_balanced_region_counterexample:
  \<open>spec_first_balanced_region ''{"a":1} trailing {"b":2}'' = Some ''{"a":1}''
   \<and> jsonMatch ''{"a":1} trailing {"b":2}'' = Some ''{"a":1} trailing {"b":2}''
   \<and> jsonMatch ''{"a":1} trailing {"b":2}'' \<noteq> spec_first_balanced_region ''{"a":1} trailing {"b":2}''
   \<and> json_parse ''{"a":1}'' = Some (JObj [(''a'', JNum (Finite 1))])
   \<and> snd (analyzeQuery (sample_world (constant_llm ''{"a":1} trailing {"b":2}'') (sample_store [] [])) ''hi'')
       = decision_error\<close>
proof -
  let ?T = \<open>''{"a":1} trailing {"b":2}''\<close>
  let ?w = "sample_world (constant_llm ?T) (sample_store [] [])"
  have s: \<open>spec_first_balanced_region ?T = Some ''{"a":1}''\<close> by simp
  have m: "jsonMatch ?T = Some ?T" by simp
  have j: \<open>json_parse ''{"a":1}'' = Some (JObj [(''a'', JNum (Finite 1))])\<close> by code_simp
  have p: "json_parse ?T = None" by code_simp
  have a: "snd (analyzeQuery ?w ''hi'') = decision_error"
    by (simp add: analyzeQuery_def sample_world_def constant_llm_def m p del: jsonMatch.simps)
  from s m j a show ?thesis by simp
qed

section \<open>The classifier's fallback\<close>

text \<open>
  C3, as the code has it.  When the completion request fails, when the completion has no
  region, and when the region does not parse, \<^verbatim>\<open>analyzeQuery\<close> returns a fallback
  decision with \<^verbatim>\<open>needsRAG\<close> true and \<^verbatim>\<open>needsChart\<close> and \<^verbatim>\<open>needsDirect\<close> false.
  Its \<^verbatim>\<open>reasoning\<close> is \<^verbatim>\<open>Could not parse LLM response, defaulting to RAG\<close> when there is
  no region and \<^verbatim>\<open>Error in analysis, defaulting to RAG\<close> in the other two cases.  The
  function returns a decision on every path (no error leaves it) and makes exactly one
  completion request.
\<close>

theorem analyzeQuery_fallback:
  "(invoke w 0.3 (analysisPrompt q) = Inl e \<longrightarrow>
      snd (analyzeQuery w q) =
        JObj [(''needsChart'', JBool False), (''needsRAG'', JBool True), (''needsDirect'', JBool False),
              (''reasoning'', JStr ''Error in analysis, defaulting to RAG'')])
   \<and> (invoke w 0.3 (analysisPrompt q) = Inr content \<longrightarrow> jsonMatch content = None \<longrightarrow>
      snd (analyzeQuery w q) =
        JObj [(''needsChart'', JBool False), (''needsRAG'', JBool True), (''needsDirect'', JBool False),
              (''reasoning'', JStr ''Could not parse LLM response, defaulting to RAG'')])
   \<and> (invoke w 0.3 (analysisPrompt q) = Inr content \<longrightarrow> jsonMatch content = Some region \<longrightarrow>
      JSON_parse w region = None \<longrightarrow>
      snd (analyzeQuery w q) =
        JObj [(''needsChart'', JBool False), (''needsRAG'', JBool True), (''needsDirect'', JBool False),
              (''reasoning'', JStr ''Error in analysis, defaulting to RAG'')])
   \<and> completion_requests (fst (analyzeQuery w q)) = [(0.3, analysisPrompt q)]"
  by (simp add: analyzeQuery_def decision_error_def decision_unparsed_def)

text \<open>The three failures, each in a world of its own.\<close>

theorem analyzeQuery_fallback_witness:
  \<open>snd (analyzeQuery (sample_world (failing_llm ''429 quota exceeded'') (sample_store [] [])) ''hi'') =
     JObj [(''needsChart'', JBool False), (''needsRAG'', JBool True), (''needsDirect'', JBool False),
           (''reasoning'', JStr ''Error in analysis, defaulting to RAG'')]
   \<and> snd (analyzeQuery (sample_world (constant_llm ''I cannot decide.'') (sample_store [] [])) ''hi'') =
     JObj [(''needsChart'', JBool False), (''needsRAG'', JBool True), (''needsDirect'', JBool False),
           (''reasoning'', JStr ''Could not parse LLM response, defaulting to RAG'')]
   \<and> snd (analyzeQuery (sample_world (constant_llm ''{needsRAG: yes}'') (sample_store [] [])) ''hi'') =
     JObj [(''needsChart'', JBool False), (''needsRAG'', JBool True), (''needsDirect'', JBool False),
           (''reasoning'', JStr ''Error in analysis, defaulting to RAG'')]\<close>
proof -
  let ?w1 = "sample_world (failing_llm ''429 quota exceeded'') (sample_store [] [])"
  let ?w2 = "sample_world (constant_llm ''I cannot decide.'') (sample_store [] [])"
  let ?w3 = "sample_world (constant_llm ''{needsRAG: yes}'') (sample_store [] [])"
  have h1: "invoke ?w1 0.3 (analysisPrompt ''hi'') = Inl (Error ''429 quota exceeded'')"
    by (simp add: sample_world_def failing_llm_def)
  have h2: "invoke ?w2 0.3 (analysisPrompt ''hi'') = Inr ''I cannot decide.''"
    by (simp add: sample_world_def constant_llm_def)
  have m2: "jsonMatch ''I cannot decide.'' = None" by simp
  have h3: "invoke ?w3 0.3 (analysisPrompt ''hi'') = Inr ''{needsRAG: yes}''"
    by (simp add: sample_world_def constant_llm_def)
  have m3: "jsonMatch ''{needsRAG: yes}'' = Some ''{needsRAG: yes}''" by simp
  have p3: "JSON_parse ?w3 ''{needsRAG: yes}'' = None"
    unfolding sample_world_def by (simp, code_simp)
  from analyzeQuery_fallback [of ?w1 "''hi''" "Error ''429 quota exceeded''"] h1
  have r1: "snd (analyzeQuery ?w1 ''hi'') =
     JObj [(''needsChart'', JBool False), (''needsRAG'', JBool True), (''needsDirect'', JBool False),
           (''reasoning'', JStr ''Error in analysis, defaulting to RAG'')]"
    by blast
  from analyzeQuery_fallback [of ?w2 "''hi''" _ "''I cannot decide.''"] h2 m2
  have r2: "snd (analyzeQuery ?w2 ''hi'') =
     JObj [(''needsChart'', JBool False), (''needsRAG'', JBool True), (''needsDirect'', JBool False),
           (''reasoning'', JStr ''Could not parse LLM response, defaulting to RAG'')]"
    by blast
  from analyzeQuery_fallback [of ?w3 "''hi''" _ "''{needsRAG: yes}''" "''{needsRAG: yes}''"] h3 m3 p3
  have r3: "snd (analyzeQuery ?w3 ''hi'') =
     JObj [(''needsChart'', JBool False), (''needsRAG'', JBool True), (''needsDirect'', JBool False),
           (''reasoning'', JStr ''Error in analysis, defaulting to RAG'')]"
    by blast
  from r1 r2 r3 show ?thesis by blast
qed

text \<open>
  C3, as the specification words it, fails on the rationale: it is never the text
  \<^verbatim>\<open>fallback\<close>, and the fallback decision is not one fixed value, since the two
  paths give different texts.
\<close>

theorem fallback_rationale_counterexample:
  \<open>js_get (snd (analyzeQuery (sample_world (failing_llm ''429 quota exceeded'') (sample_store [] [])) ''hi''))
       ''reasoning'' = JStr ''Error in analysis, defaulting to RAG''
   \<and> js_get (snd (analyzeQuery (sample_world (constant_llm ''I cannot decide.'') (sample_store [] [])) ''hi''))
       ''reasoning'' = JStr ''Could not parse LLM response, defaulting to RAG''
   \<and> js_get (snd (analyzeQuery (sample_world (failing_llm ''429 quota exceeded'') (sample_store [] [])) ''hi''))
       ''reasoning'' \<noteq> JStr ''fallback''
   \<and> snd (analyzeQuery (sample_world (failing_llm ''429 quota exceeded'') (sample_store [] [])) ''hi'')
       \<noteq> snd (analyzeQuery (sample_world (constant_llm ''I cannot decide.'') (sample_store [] [])) ''hi'')\<close>
  by (simp add: analyzeQuery_def sample_world_def failing_llm_def constant_llm_def
        decision_error_def decision_unparsed_def)

section \<open>The RAG agent\<close>

lemma completion_requests_append:
  "completion_requests (xs @ ys) = completion_requests xs @ completion_requests ys"
  by (induction xs rule: completion_requests.induct) simp_all

lemma searches_started_append:
  "searches_started (xs @ ys) = searches_started xs @ searches_started ys"
  by (induction xs rule: searches_started.induct) simp_all

lemma with_client_trace:
  "completion_requests (fst (with_client w rq)) = []"
  "searches_started (fst (with_client w rq)) = [rq]"
  by (simp_all add: with_client_def split: sum.splits)

lemma retrieve_documents_result:
  "snd (retrieve_documents w q t) =
     (case snd (retrieveFromWeaviate w q t 5) of
        Inl e \<Rightarrow> Inl e
      | Inr found \<Rightarrow> if no_documents found then snd (fetchAllFromWeaviate w t) else Inr found)"
  by (simp add: retrieve_documents_def split: prod.splits sum.splits)

lemma retrieve_documents_searches:
  "searches_started (fst (retrieve_documents w q t)) =
     Bm25 t q 5 #
     (case snd (retrieveFromWeaviate w q t 5) of
        Inl e \<Rightarrow> []
      | Inr found \<Rightarrow> if no_documents found then [FetchObjects t 100] else [])"
proof -
  have a: "searches_started (fst (retrieveFromWeaviate w q t 5)) = [Bm25 t q 5]"
    by (simp add: retrieveFromWeaviate_def with_client_trace)
  have b: "searches_started (fst (fetchAllFromWeaviate w t)) = [FetchObjects t 100]"
    by (simp add: fetchAllFromWeaviate_def with_client_trace)
  show ?thesis
  proof (cases "retrieveFromWeaviate w q t 5")
    case (Pair t1 r1)
    with a have t1: "searches_started t1 = [Bm25 t q 5]" by simp
    show ?thesis
    proof (cases r1)
      case (Inl e)
      with Pair t1 show ?thesis by (simp add: retrieve_documents_def)
    next
      case (Inr found)
      show ?thesis
      proof (cases "fetchAllFromWeaviate w t")
        case scan: (Pair t2 r2)
        with b have "searches_started t2 = [FetchObjects t 100]" by simp
        with Pair Inr t1 scan show ?thesis
          by (simp add: retrieve_documents_def searches_started_append)
      qed
    qed
  qed
qed

lemma retrieve_documents_no_completion:
  "completion_requests (fst (retrieve_documents w q t)) = []"
proof -
  have a: "completion_requests (fst (retrieveFromWeaviate w q t 5)) = []"
    by (simp add: retrieveFromWeaviate_def with_client_trace)
  have b: "completion_requests (fst (fetchAllFromWeaviate w t)) = []"
    by (simp add: fetchAllFromWeaviate_def with_client_trace)
  show ?thesis
  proof (cases "retrieveFromWeaviate w q t 5")
    case (Pair t1 r1)
    with a have t1: "completion_requests t1 = []" by simp
    show ?thesis
    proof (cases "fetchAllFromWeaviate w t")
      case scan: (Pair t2 r2)
      with b have "completion_requests t2 = []" by simp
      with Pair t1 scan show ?thesis
        by (cases r1) (simp_all add: retrieve_documents_def completion_requests_append)
    qed
  qed
qed

lemma ragGenerate_result:
  "snd (ragGenerate w q t) =
     (case snd (retrieve_documents w q t) of
        Inl e \<Rightarrow> Inl e
      | Inr retrievedDocs \<Rightarrow> snd (generate_from w q retrievedDocs))"
  by (simp add: ragGenerate_def split: prod.splits sum.splits)

lemma ragGenerate_trace:
  "fst (ragGenerate w q t) =
     fst (retrieve_documents w q t) @
     (case snd (retrieve_documents w q t) of
        Inl e \<Rightarrow> []
      | Inr retrievedDocs \<Rightarrow> fst (generate_from w q retrievedDocs))"
  by (simp add: ragGenerate_def split: prod.splits sum.splits)

lemma generate_from_searches: "searches_started (fst (generate_from w q ds)) = []"
  by (simp add: generate_from_def Let_def split: option.splits)

lemma generate_from_nothing:
  "no_documents ds \<Longrightarrow> generate_from w q ds = ([], Inr no_information)"
  by (cases ds) (simp_all add: generate_from_def)


text \<open>
  C8.  The store requests \<^verbatim>\<open>ragGenerate\<close> starts are, in order, the keyword search in
  the given tenant with limit 5 and then, exactly when that search returned no documents,
  the full scan of the same tenant with limit 100.  A full scan is started in no other
  case and for no other tenant or limit.  When the search returned no documents the
  retrieved documents are those of the full scan, otherwise those of the search; the
  answer is generated from the retrieved documents.
\<close>

theorem ragGenerate_search_then_scan:
  "searches_started (fst (ragGenerate w q t)) =
     Bm25 t q 5 #
     (case snd (retrieveFromWeaviate w q t 5) of
        Inl e \<Rightarrow> []
      | Inr found \<Rightarrow> if no_documents found then [FetchObjects t 100] else [])
   \<and> (FetchObjects t' n \<in> set (searches_started (fst (ragGenerate w q t))) \<longleftrightarrow>
        t' = t \<and> n = 100 \<and> (\<exists>found. snd (retrieveFromWeaviate w q t 5) = Inr found \<and> no_documents found))
   \<and> (snd (retrieveFromWeaviate w q t 5) = Inr found' \<longrightarrow>
        snd (retrieve_documents w q t) =
          (if no_documents found' then snd (fetchAllFromWeaviate w t) else Inr found'))
   \<and> snd (ragGenerate w q t) =
        (case snd (retrieve_documents w q t) of
           Inl e \<Rightarrow> Inl e
         | Inr retrievedDocs \<Rightarrow> snd (generate_from w q retrievedDocs))"
proof -
  have s: "searches_started (fst (ragGenerate w q t)) =
     Bm25 t q 5 #
     (case snd (retrieveFromWeaviate w q t 5) of
        Inl e \<Rightarrow> []
      | Inr found \<Rightarrow> if no_documents found then [FetchObjects t 100] else [])"
    by (simp add: ragGenerate_trace searches_started_append retrieve_documents_searches
          generate_from_searches split: sum.splits)
  have m: "FetchObjects t' n \<in> set (searches_started (fst (ragGenerate w q t))) \<longleftrightarrow>
        t' = t \<and> n = 100 \<and> (\<exists>found. snd (retrieveFromWeaviate w q t 5) = Inr found \<and> no_documents found)"
    unfolding s by (cases "snd (retrieveFromWeaviate w q t 5)") auto
  have r: "snd (retrieveFromWeaviate w q t 5) = Inr found' \<longrightarrow>
        snd (retrieve_documents w q t) =
          (if no_documents found' then snd (fetchAllFromWeaviate w t) else Inr found')"
    by (simp add: retrieve_documents_result)
  from s m r ragGenerate_result [of w q t] show ?thesis by blast
qed

text \<open>
  A store whose search finds nothing and whose scan gives two documents, and one whose
  search finds a document.
\<close>

theorem ragGenerate_search_then_scan_witness:
  "searches_started (fst (ragGenerate (sample_world (constant_llm ''Paris.'') (sample_store [] [france, paris]))
       ''capital of France'' ''tenant1''))
     = [Bm25 ''tenant1'' ''capital of France'' 5, FetchObjects ''tenant1'' 100]
   \<and> searches_started (fst (ragGenerate (sample_world (constant_llm ''Paris.'') (sample_store [france] [france, paris]))
       ''capital of France'' ''tenant1''))
     = [Bm25 ''tenant1'' ''capital of France'' 5]
   \<and> snd (retrieve_documents (sample_world (constant_llm ''Paris.'') (sample_store [] [france, paris]))
       ''capital of France'' ''tenant1'') = Inr (Some [france, paris])
   \<and> snd (retrieve_documents (sample_world (constant_llm ''Paris.'') (sample_store [france] [france, paris]))
       ''capital of France'' ''tenant1'') = Inr (Some [france])"
proof -
  let ?w1 = "sample_world (constant_llm ''Paris.'') (sample_store [] [france, paris])"
  let ?w2 = "sample_world (constant_llm ''Paris.'') (sample_store [france] [france, paris])"
  have p1: "snd (retrieveFromWeaviate ?w1 ''capital of France'' ''tenant1'' 5) = Inr (Some [])"
    by (simp add: retrieveFromWeaviate_def with_client_def sample_world_def)
  have f1: "snd (fetchAllFromWeaviate ?w1 ''tenant1'') = Inr (Some [france, paris])"
    by (simp add: fetchAllFromWeaviate_def with_client_def sample_world_def)
  have p2: "snd (retrieveFromWeaviate ?w2 ''capital of France'' ''tenant1'' 5) = Inr (Some [france])"
    by (simp add: retrieveFromWeaviate_def with_client_def sample_world_def)
  from ragGenerate_search_then_scan [of ?w1 "''capital of France''" "''tenant1''" _ _ "Some []"] p1 f1
  have r1: "searches_started (fst (ragGenerate ?w1 ''capital of France'' ''tenant1''))
       = [Bm25 ''tenant1'' ''capital of France'' 5, FetchObjects ''tenant1'' 100]
     \<and> snd (retrieve_documents ?w1 ''capital of France'' ''tenant1'') = Inr (Some [france, paris])"
    by simp
  from ragGenerate_search_then_scan [of ?w2 "''capital of France''" "''tenant1''" _ _ "Some [france]"] p2
  have r2: "searches_started (fst (ragGenerate ?w2 ''capital of France'' ''tenant1''))
       = [Bm25 ''tenant1'' ''capital of France'' 5]
     \<and> snd (retrieve_documents ?w2 ''capital of France'' ''tenant1'') = Inr (Some [france])"
    by simp
  from r1 r2 show ?thesis by blast
qed

text \<open>
  C4.  When the keyword search and the full scan both return no documents,
  \<^verbatim>\<open>ragGenerate\<close> returns the fixed answer with no file identifiers and no references,
  and makes no completion request.
\<close>

theorem ragGenerate_nothing_found:
  "snd (retrieveFromWeaviate w q t 5) = Inr found \<longrightarrow> no_documents found \<longrightarrow>
   snd (fetchAllFromWeaviate w t) = Inr scanned \<longrightarrow> no_documents scanned \<longrightarrow>
     snd (ragGenerate w q t) =
       Inr \<lparr>answer = ''I could not find any relevant information in the database to answer your question.'',
            fileIds = [], references = []\<rparr>
     \<and> completion_requests (fst (ragGenerate w q t)) = []"
proof (intro impI)
  assume a: "snd (retrieveFromWeaviate w q t 5) = Inr found" "no_documents found"
    "snd (fetchAllFromWeaviate w t) = Inr scanned" "no_documents scanned"
  then have r: "snd (retrieve_documents w q t) = Inr scanned"
    by (simp add: retrieve_documents_result)
  from a(4) have g: "generate_from w q scanned = ([], Inr no_information)"
    by (rule generate_from_nothing)
  from r g have "snd (ragGenerate w q t) = Inr no_information"
    by (simp add: ragGenerate_result)
  moreover from r g have "completion_requests (fst (ragGenerate w q t)) = []"
    by (simp add: ragGenerate_trace completion_requests_append retrieve_documents_no_completion)
  ultimately show "snd (ragGenerate w q t) =
       Inr \<lparr>answer = ''I could not find any relevant information in the database to answer your question.'',
            fileIds = [], references = []\<rparr>
     \<and> completion_requests (fst (ragGenerate w q t)) = []"
    by (simp add: no_information_def)
qed

text \<open>
An empty tenant.
\<close>

theorem ragGenerate_nothing_found_witness:
  "snd (ragGenerate (sample_world (constant_llm ''Paris.'') (sample_store [] [])) ''Who wrote Hamlet?'' ''tenant3'') =
       Inr \<lparr>answer = ''I could not find any relevant information in the database to answer your question.'',
            fileIds = [], references = []\<rparr>
   \<and> completion_requests
       (fst (ragGenerate (sample_world (constant_llm ''Paris.'') (sample_store [] [])) ''Who wrote Hamlet?'' ''tenant3''))
     = []"
proof -
  let ?w = "sample_world (constant_llm ''Paris.'') (sample_store [] [])"
  have p: "snd (retrieveFromWeaviate ?w ''Who wrote Hamlet?'' ''tenant3'' 5) = Inr (Some [])"
    by (simp add: retrieveFromWeaviate_def with_client_def sample_world_def)
  have f: "snd (fetchAllFromWeaviate ?w ''tenant3'') = Inr (Some [])"
    by (simp add: fetchAllFromWeaviate_def with_client_def sample_world_def)
  from ragGenerate_nothing_found [of ?w "''Who wrote Hamlet?''" "''tenant3''" "Some []" "Some []"] p f
  show ?thesis by simp
qed

lemma generate_from_documents:
  assumes "docs \<noteq> []"
  shows "snd (generate_from w q (Some docs)) =
     (case invoke w 0.5 (rag_prompt (join [CHR 10, CHR 10] (map document_text (enumerate 0 docs))) q) of
        Inl e \<Rightarrow> Inl e
      | Inr content \<Rightarrow>
          Inr \<lparr>answer = content,
               fileIds = map (\<lambda>doc. fileId (properties doc)) docs,
               references = map (\<lambda>doc. \<lparr>fileId = fileId (properties doc),
                                            question = question (properties doc),
                                            answer = qa.answer (properties doc)\<rparr>) docs\<rparr>)"
  using assms by (simp add: generate_from_def Let_def)

text \<open>
  C9.  For a non-empty list of retrieved documents, whatever \<^verbatim>\<open>ragGenerate\<close> returns
  has as \<^verbatim>\<open>fileIds\<close> the documents' identifiers in retrieval order, duplicates kept,
  and as \<^verbatim>\<open>references\<close> their identifier, question and answer in the same order; both
  are as long as the document list and agree on the identifier at every index.  It does
  return, with the completion as the answer, whenever the completion request succeeds.
\<close>

theorem ragGenerate_fileIds_references:
  "snd (retrieve_documents w q t) = Inr (Some docs) \<longrightarrow> docs \<noteq> [] \<longrightarrow>
     (snd (ragGenerate w q t) = Inr r \<longrightarrow>
        fileIds r = map (\<lambda>doc. fileId (properties doc)) docs
        \<and> references r = map (\<lambda>doc. \<lparr>fileId = fileId (properties doc),
                                         question = question (properties doc),
                                         answer = qa.answer (properties doc)\<rparr>) docs
        \<and> length (fileIds r) = length docs
        \<and> length (references r) = length docs
        \<and> (\<forall>i<length docs. fileIds r ! i = fileId (references r ! i)))
     \<and> (invoke w 0.5 (rag_prompt (join [CHR 10, CHR 10] (map document_text (enumerate 0 docs))) q) = Inr content \<longrightarrow>
        snd (ragGenerate w q t) =
          Inr \<lparr>answer = content,
               fileIds = map (\<lambda>doc. fileId (properties doc)) docs,
               references = map (\<lambda>doc. \<lparr>fileId = fileId (properties doc),
                                            question = question (properties doc),
                                            answer = qa.answer (properties doc)\<rparr>) docs\<rparr>)"
proof (intro impI conjI)
  assume d: "snd (retrieve_documents w q t) = Inr (Some docs)" and n: "docs \<noteq> []"
  let ?prompt = "rag_prompt (join [CHR 10, CHR 10] (map document_text (enumerate 0 docs))) q"
  let ?ids = "map (\<lambda>doc. fileId (properties doc)) docs"
  let ?refs = "map (\<lambda>doc. \<lparr>fileId = fileId (properties doc), question = question (properties doc),
                            answer = qa.answer (properties doc)\<rparr>) docs"
  have g: "snd (ragGenerate w q t) =
     (case invoke w 0.5 ?prompt of
        Inl e \<Rightarrow> Inl e
      | Inr content \<Rightarrow> Inr \<lparr>answer = content, fileIds = ?ids, references = ?refs\<rparr>)"
    using d by (simp add: ragGenerate_result generate_from_documents [OF n])
  {
    assume "invoke w 0.5 ?prompt = Inr content"
    with g show "snd (ragGenerate w q t) = Inr \<lparr>answer = content, fileIds = ?ids, references = ?refs\<rparr>"
      by simp
  }
  assume r: "snd (ragGenerate w q t) = Inr r"
  with g obtain content where r': "r = \<lparr>answer = content, fileIds = ?ids, references = ?refs\<rparr>"
    by (cases "invoke w 0.5 ?prompt") auto
  from r' show "fileIds r = ?ids" by simp
  from r' show "references r = ?refs" by simp
  from r' show "length (fileIds r) = length docs" by simp
  from r' show "length (references r) = length docs" by simp
  from r' show "\<forall>i<length docs. fileIds r ! i = fileId (references r ! i)" by simp
qed

text \<open>
Three documents, two of them from the same file.
\<close>

theorem ragGenerate_fileIds_references_witness:
  "snd (ragGenerate (sample_world (constant_llm ''Paris, on the Seine.'') (sample_store [france, paris, photosynthesis] []))
         ''Tell me about Paris'' ''tenant1'') =
     Inr \<lparr>answer = ''Paris, on the Seine.'',
          fileIds = [''FILE-001'', ''FILE-001'', ''FILE-002''],
          references =
            [\<lparr>fileId = ''FILE-001'', question = ''What is the capital of France?'',
              answer = ''The capital of France is Paris.''\<rparr>,
             \<lparr>fileId = ''FILE-001'', question = ''Which river runs through Paris?'',
              answer = ''The Seine.''\<rparr>,
             \<lparr>fileId = ''FILE-002'', question = ''What is photosynthesis?'',
              answer = ''The process by which plants turn light into energy.''\<rparr>]\<rparr>"
proof -
  let ?w = "sample_world (constant_llm ''Paris, on the Seine.'') (sample_store [france, paris, photosynthesis] [])"
  let ?docs = "[france, paris, photosynthesis]"
  have d: "snd (retrieve_documents ?w ''Tell me about Paris'' ''tenant1'') = Inr (Some ?docs)"
    by (simp add: retrieve_documents_def retrieveFromWeaviate_def with_client_def sample_world_def)
  have i: "invoke ?w 0.5 (rag_prompt (join [CHR 10, CHR 10] (map document_text (enumerate 0 ?docs)))
             ''Tell me about Paris'') = Inr ''Paris, on the Seine.''"
    by (simp add: sample_world_def constant_llm_def)
  let ?r = "\<lparr>answer = ''Paris, on the Seine.'',
             fileIds = map (\<lambda>doc. fileId (properties doc)) ?docs,
             references = map (\<lambda>doc. \<lparr>fileId = fileId (properties doc),
                                          question = question (properties doc),
                                          answer = qa.answer (properties doc)\<rparr>) ?docs\<rparr>"
  from ragGenerate_fileIds_references [of ?w "''Tell me about Paris''" "''tenant1''" ?docs ?r "''Paris, on the Seine.''"] d i
  have "snd (ragGenerate ?w ''Tell me about Paris'' ''tenant1'') = Inr ?r
    \<and> length (fileIds ?r) = length ?docs \<and> length (references ?r) = length ?docs
    \<and> (\<forall>i<length ?docs. fileIds ?r ! i = fileId (references ?r ! i))"
    by simp
  then show ?thesis by (simp add: france_def paris_def photosynthesis_def)
qed

section \<open>Merging the results\<close>

text \<open>
  Each slot holds the result of its tag: with at most one result per tag in the list, the
  slots, and so the response, depend on the results and not on their order.
\<close>

lemma ragData_unique:
  "Rag d \<in> set rs \<Longrightarrow> (\<And>d'. Rag d' \<in> set rs \<Longrightarrow> d' = d) \<Longrightarrow>
   ragData (foldl file_result s rs) = Some d"
proof (induction rs rule: rev_induct)
  case Nil
  then show ?case by simp
next
  case (snoc x xs)
  have rest: "ragData (foldl file_result s xs) = Some d" if "Rag d \<in> set xs"
    by (rule snoc.IH [OF that]) (rule snoc.prems(2), simp)
  show ?case
  proof (cases x)
    case (Rag d')
    have "d' = d" by (rule snoc.prems(2)) (simp add: Rag)
    with Rag show ?thesis by simp
  next
    case (Chart a)
    with snoc.prems(1) have "Rag d \<in> set xs" by simp
    with rest Chart show ?thesis by simp
  next
    case (Direct a)
    with snoc.prems(1) have "Rag d \<in> set xs" by simp
    with rest Direct show ?thesis by simp
  qed
qed

lemma ragData_absent:
  "(\<And>d. Rag d \<notin> set rs) \<Longrightarrow> ragData (foldl file_result s rs) = ragData s"
proof (induction rs rule: rev_induct)
  case Nil
  then show ?case by simp
next
  case (snoc x xs)
  have rest: "ragData (foldl file_result s xs) = ragData s"
    by (rule snoc.IH) (use snoc.prems in simp)
  show ?case
  proof (cases x)
    case (Rag d)
    with snoc.prems [of d] show ?thesis by simp
  next
    case (Chart a)
    with rest show ?thesis by simp
  next
    case (Direct a)
    with rest show ?thesis by simp
  qed
qed

lemma chartData_unique:
  "Chart d \<in> set rs \<Longrightarrow> (\<And>d'. Chart d' \<in> set rs \<Longrightarrow> d' = d) \<Longrightarrow>
   chartData (foldl file_result s rs) = d"
proof (induction rs rule: rev_induct)
  case Nil
  then show ?case by simp
next
  case (snoc x xs)
  have rest: "chartData (foldl file_result s xs) = d" if "Chart d \<in> set xs"
    by (rule snoc.IH [OF that]) (rule snoc.prems(2), simp)
  show ?case
  proof (cases x)
    case (Chart d')
    have "d' = d" by (rule snoc.prems(2)) (simp add: Chart)
    with Chart show ?thesis by simp
  next
    case (Rag a)
    with snoc.prems(1) have "Chart d \<in> set xs" by simp
    with rest Rag show ?thesis by simp
  next
    case (Direct a)
    with snoc.prems(1) have "Chart d \<in> set xs" by simp
    with rest Direct show ?thesis by simp
  qed
qed

lemma chartData_absent:
  "(\<And>d. Chart d \<notin> set rs) \<Longrightarrow> chartData (foldl file_result s rs) = chartData s"
proof (induction rs rule: rev_induct)
  case Nil
  then show ?case by simp
next
  case (snoc x xs)
  have rest: "chartData (foldl file_result s xs) = chartData s"
    by (rule snoc.IH) (use snoc.prems in simp)
  show ?case
  proof (cases x)
    case (Chart d)
    with snoc.prems [of d] show ?thesis by simp
  next
    case (Rag a)
    with rest show ?thesis by simp
  next
    case (Direct a)
    with rest show ?thesis by simp
  qed
qed

lemma directData_unique:
  "Direct d \<in> set rs \<Longrightarrow> (\<And>d'. Direct d' \<in> set rs \<Longrightarrow> d' = d) \<Longrightarrow>
   directData (foldl file_result s rs) = Some d"
proof (induction rs rule: rev_induct)
  case Nil
  then show ?case by simp
next
  case (snoc x xs)
  have rest: "directData (foldl file_result s xs) = Some d" if "Direct d \<in> set xs"
    by (rule snoc.IH [OF that]) (rule snoc.prems(2), simp)
  show ?case
  proof (cases x)
    case (Direct d')
    have "d' = d" by (rule snoc.prems(2)) (simp add: Direct)
    with Direct show ?thesis by simp
  next
    case (Rag a)
    with snoc.prems(1) have "Direct d \<in> set xs" by simp
    with rest Rag show ?thesis by simp
  next
    case (Chart a)
    with snoc.prems(1) have "Direct d \<in> set xs" by simp
    with rest Chart show ?thesis by simp
  qed
qed

lemma directData_absent:
  "(\<And>d. Direct d \<notin> set rs) \<Longrightarrow> directData (foldl file_result s rs) = directData s"
proof (induction rs rule: rev_induct)
  case Nil
  then show ?case by simp
next
  case (snoc x xs)
  have rest: "directData (foldl file_result s xs) = directData s"
    by (rule snoc.IH) (use snoc.prems in simp)
  show ?case
  proof (cases x)
    case (Direct d)
    with snoc.prems [of d] show ?thesis by simp
  next
    case (Rag a)
    with rest show ?thesis by simp
  next
    case (Chart a)
    with rest show ?thesis by simp
  qed
qed

lemma slots_of_set:
  assumes one: "\<And>x y. x \<in> set rs \<Longrightarrow> y \<in> set rs \<Longrightarrow> same_tag x y \<Longrightarrow> x = y"
    and same: "set rs' = set rs"
  shows "foldl file_result s rs' = foldl file_result s rs"
proof -
  have ragData: "ragData (foldl file_result s rs') = ragData (foldl file_result s rs)"
  proof (cases "\<exists>d. Rag d \<in> set rs")
    case True
    then obtain d where d: "Rag d \<in> set rs" by blast
    have u: "d' = d" if "Rag d' \<in> set rs" for d'
      using one [OF that d] by simp
    have "ragData (foldl file_result s rs) = Some d" using d u by (rule ragData_unique)
    moreover have "ragData (foldl file_result s rs') = Some d"
    proof (rule ragData_unique)
      show "Rag d \<in> set rs'" using d same by simp
      show "d' = d" if "Rag d' \<in> set rs'" for d' using that same u by simp
    qed
    ultimately show ?thesis by simp
  next
    case False
    then have "\<And>d. Rag d \<notin> set rs" "\<And>d. Rag d \<notin> set rs'" using same by simp_all
    then show ?thesis by (simp add: ragData_absent)
  qed
  have chartData: "chartData (foldl file_result s rs') = chartData (foldl file_result s rs)"
  proof (cases "\<exists>d. Chart d \<in> set rs")
    case True
    then obtain d where d: "Chart d \<in> set rs" by blast
    have u: "d' = d" if "Chart d' \<in> set rs" for d'
      using one [OF that d] by simp
    have "chartData (foldl file_result s rs) = d" using d u by (rule chartData_unique)
    moreover have "chartData (foldl file_result s rs') = d"
    proof (rule chartData_unique)
      show "Chart d \<in> set rs'" using d same by simp
      show "d' = d" if "Chart d' \<in> set rs'" for d' using that same u by simp
    qed
    ultimately show ?thesis by simp
  next
    case False
    then have "\<And>d. Chart d \<notin> set rs" "\<And>d. Chart d \<notin> set rs'" using same by simp_all
    then show ?thesis by (simp add: chartData_absent)
  qed
  have directData: "directData (foldl file_result s rs') = directData (foldl file_result s rs)"
  proof (cases "\<exists>d. Direct d \<in> set rs")
    case True
    then obtain d where d: "Direct d \<in> set rs" by blast
    have u: "d' = d" if "Direct d' \<in> set rs" for d'
      using one [OF that d] by simp
    have "directData (foldl file_result s rs) = Some d" using d u by (rule directData_unique)
    moreover have "directData (foldl file_result s rs') = Some d"
    proof (rule directData_unique)
      show "Direct d \<in> set rs'" using d same by simp
      show "d' = d" if "Direct d' \<in> set rs'" for d' using that same u by simp
    qed
    ultimately show ?thesis by simp
  next
    case False
    then have "\<And>d. Direct d \<notin> set rs" "\<And>d. Direct d \<notin> set rs'" using same by simp_all
    then show ?thesis by (simp add: directData_absent)
  qed
  from ragData chartData directData show ?thesis by (rule slots.equality) simp
qed

lemma combine_any_order:
  assumes "\<And>x y. x \<in> set rs \<Longrightarrow> y \<in> set rs \<Longrightarrow> same_tag x y \<Longrightarrow> x = y"
    and "set rs' = set rs"
  shows "combine rs' = combine rs"
  unfolding combine_def using slots_of_set [OF assms] by simp

text \<open>
  C5.  A retrieval result and a chart result give the same response in either order.
\<close>

theorem combine_order_independent:
  "combine [Rag r, Chart c] = combine [Chart c, Rag r]"
  by (simp add: combine_def)

section \<open>Failure of a task\<close>

lemma first_rejection_member:
  "first_rejection ps is = Some e \<Longrightarrow> Inl e \<in> set ps"
proof (induction "is")
  case Nil
  then show ?case by simp
next
  case (Cons i "is")
  show ?case
  proof (cases "i < length ps")
    case True
    show ?thesis
    proof (cases "ps ! i")
      case (Inl e')
      with True Cons.prems have "e' = e" by simp
      with Inl True show ?thesis by (metis nth_mem)
    next
      case (Inr v)
      with True Cons show ?thesis by simp
    qed
  next
    case False
    with Cons show ?thesis by simp
  qed
qed

lemma first_rejection_finds:
  "i \<in> set is \<Longrightarrow> i < length ps \<Longrightarrow> ps ! i = Inl e \<Longrightarrow> \<exists>e'. first_rejection ps is = Some e'"
  by (induction "is") (auto split: sum.splits)

lemma promise_all_rejects:
  assumes "Inl e \<in> set ps"
  shows "\<exists>e'. promise_all order ps = Inl e'
              \<and> first_rejection ps (order @ [0..<length ps]) = Some e' \<and> Inl e' \<in> set ps"
proof -
  from assms obtain i where i: "i < length ps" "ps ! i = Inl e"
    by (auto simp: in_set_conv_nth)
  then have "i \<in> set (order @ [0..<length ps])" by simp
  from first_rejection_finds [OF this i]
  obtain e' where e': "first_rejection ps (order @ [0..<length ps]) = Some e'" by blast
  then have "Inl e' \<in> set ps" by (rule first_rejection_member)
  with e' show ?thesis by (simp add: promise_all_def)
qed

lemma promise_all_fulfilled:
  "promise_all order ps = Inr vs \<Longrightarrow> vs = fulfilled_values ps"
  by (simp add: promise_all_def split: option.splits)

lemma fulfilled_values_member:
  "v \<in> set (fulfilled_values ps) \<longleftrightarrow> Inr v \<in> set ps"
  by (induction ps rule: fulfilled_values.induct) auto

lemma tasks_nullish [simp]: "tasks w q t JNull = []" "tasks w q t JUndefined = []"
  by (simp_all add: tasks_def)

lemma delegateQuery_tasks:
  "delegateQuery w q topt =
     (let d = snd (analyzeQuery w q)
      in if d = JNull then Inl (TypeError ''Cannot read properties of null (reading 'reasoning')'')
         else if d = JUndefined then Inl (TypeError ''Cannot read properties of undefined (reading 'reasoning')'')
         else (case promise_all (settle w) (tasks w q (default_tenant topt) d) of
                 Inl e \<Rightarrow> Inl e
               | Inr results \<Rightarrow> Inr (combine results)))"
  by (simp add: delegateQuery_def Let_def)

lemma rag_task_synthesis_failure:
  assumes "snd (retrieve_documents w q t) = Inr (Some docs)" "docs \<noteq> []"
    "invoke w 0.5 (rag_prompt (join [CHR 10, CHR 10] (map document_text (enumerate 0 docs))) q) = Inl e"
  shows "snd (ragGenerate w q t) = Inl e" "rag_task w q t = Inl e"
proof -
  from assms show r: "snd (ragGenerate w q t) = Inl e"
    by (simp add: ragGenerate_result generate_from_documents)
  then show "rag_task w q t = Inl e" by (simp add: rag_task_def)
qed

text \<open>
  C6.  When one of the scheduled tasks fails, \<^verbatim>\<open>delegateQuery\<close> fails: its result is
  the error of the task that is rejected first in the order of settlement, and no
  response is returned.  A completion failure during synthesis is the result of
  \<^verbatim>\<open>ragGenerate\<close>, and so of its task.
\<close>

theorem delegateQuery_fails_with_first_error:
  "(Inl e \<in> set (tasks w q (default_tenant topt) (snd (analyzeQuery w q))) \<longrightarrow>
      (\<exists>e'. delegateQuery w q topt = Inl e'
          \<and> first_rejection (tasks w q (default_tenant topt) (snd (analyzeQuery w q)))
               (settle w @ [0..<length (tasks w q (default_tenant topt) (snd (analyzeQuery w q)))]) = Some e'
          \<and> Inl e' \<in> set (tasks w q (default_tenant topt) (snd (analyzeQuery w q)))))
   \<and> (snd (retrieve_documents w q t) = Inr (Some docs) \<longrightarrow> docs \<noteq> [] \<longrightarrow>
      invoke w 0.5 (rag_prompt (join [CHR 10, CHR 10] (map document_text (enumerate 0 docs))) q) = Inl e2 \<longrightarrow>
      snd (ragGenerate w q t) = Inl e2 \<and> rag_task w q t = Inl e2)"
proof (intro conjI impI)
  let ?d = "snd (analyzeQuery w q)"
  let ?ts = "tasks w q (default_tenant topt) ?d"
  assume f: "Inl e \<in> set ?ts"
  then have n: "?d \<noteq> JNull" "?d \<noteq> JUndefined" by auto
  from promise_all_rejects [OF f, of "settle w"]
  obtain e' where e': "promise_all (settle w) ?ts = Inl e'"
    "first_rejection ?ts (settle w @ [0..<length ?ts]) = Some e'" "Inl e' \<in> set ?ts"
    by blast
  from n e'(1) have "delegateQuery w q topt = Inl e'"
    by (simp add: delegateQuery_tasks Let_def)
  with e' show "\<exists>e'. delegateQuery w q topt = Inl e'
          \<and> first_rejection ?ts (settle w @ [0..<length ?ts]) = Some e' \<and> Inl e' \<in> set ?ts"
    by blast
next
  assume "snd (retrieve_documents w q t) = Inr (Some docs)" "docs \<noteq> []"
    "invoke w 0.5 (rag_prompt (join [CHR 10, CHR 10] (map document_text (enumerate 0 docs))) q) = Inl e2"
  then show "snd (ragGenerate w q t) = Inl e2" "rag_task w q t = Inl e2"
    by (rule rag_task_synthesis_failure)+
qed

lemma routing_prompt_kind [simp]:
  "take 7 (analysisPrompt q) \<noteq> ''Extract''"
  "take 7 (extractionPrompt q) = ''Extract''"
  by (simp_all add: analysisPrompt_def extractionPrompt_def)

lemma both_decision_parse:
  \<open>json_parse ''{"needsChart": true, "needsRAG": true, "needsDirect": false, "reasoning": "both"}'' =
     Some (JObj [(''needsChart'', JBool True), (''needsRAG'', JBool True),
                 (''needsDirect'', JBool False), (''reasoning'', JStr ''both'')])\<close>
  by code_simp

lemma both_decision_match:
  \<open>jsonMatch ''{"needsChart": true, "needsRAG": true, "needsDirect": false, "reasoning": "both"}'' =
     Some ''{"needsChart": true, "needsRAG": true, "needsDirect": false, "reasoning": "both"}''\<close>
  by simp

lemma pie_parse:
  \<open>json_parse ''{"chartType":"pie","title":"Plants","labels":["Trees","Flowers"],"data":[40,60]}'' =
     Some (JObj [(''chartType'', JStr ''pie''), (''title'', JStr ''Plants''),
                 (''labels'', JArr [JStr ''Trees'', JStr ''Flowers'']),
                 (''data'', JArr [JNum (Finite 40), JNum (Finite 60)])])\<close>
  by code_simp

lemma pie_match:
  \<open>jsonMatch ''{"chartType":"pie","title":"Plants","labels":["Trees","Flowers"],"data":[40,60]}'' =
     Some ''{"chartType":"pie","title":"Plants","labels":["Trees","Flowers"],"data":[40,60]}''\<close>
  by simp

text \<open>
  Retrieval and chart are both selected, the chart is generated, the synthesis fails: the
  whole call fails with the synthesis error.
\<close>

theorem delegateQuery_fails_with_first_error_witness:
  \<open>delegateQuery
      (sample_world
         (answer_failing_llm
            ''{"needsChart": true, "needsRAG": true, "needsDirect": false, "reasoning": "both"}''
            ''{"chartType":"pie","title":"Plants","labels":["Trees","Flowers"],"data":[40,60]}''
            ''503 unavailable'')
         (sample_store [photosynthesis] []))
      ''Tell me about photosynthesis and show a pie chart'' None
     = Inl (Error ''503 unavailable'')
   \<and> snd (ragGenerate
      (sample_world
         (answer_failing_llm
            ''{"needsChart": true, "needsRAG": true, "needsDirect": false, "reasoning": "both"}''
            ''{"chartType":"pie","title":"Plants","labels":["Trees","Flowers"],"data":[40,60]}''
            ''503 unavailable'')
         (sample_store [photosynthesis] []))
      ''Tell me about photosynthesis and show a pie chart'' ''tenant1'')
     = Inl (Error ''503 unavailable'')\<close>
proof -
  let ?A = \<open>''{"needsChart": true, "needsRAG": true, "needsDirect": false, "reasoning": "both"}''\<close>
  let ?C = \<open>''{"chartType":"pie","title":"Plants","labels":["Trees","Flowers"],"data":[40,60]}''\<close>
  let ?P = "JObj [(''chartType'', JStr ''pie''), (''title'', JStr ''Plants''),
                 (''labels'', JArr [JStr ''Trees'', JStr ''Flowers'']),
                 (''data'', JArr [JNum (Finite 40), JNum (Finite 60)])]"
  let ?w = "sample_world (answer_failing_llm ?A ?C ''503 unavailable'') (sample_store [photosynthesis] [])"
  let ?q = "''Tell me about photosynthesis and show a pie chart''"
  let ?e = "Error ''503 unavailable''"
  have d: "snd (analyzeQuery ?w ?q) =
      JObj [(''needsChart'', JBool True), (''needsRAG'', JBool True),
            (''needsDirect'', JBool False), (''reasoning'', JStr ''both'')]"
    by (simp add: analyzeQuery_def sample_world_def answer_failing_llm_def scripted_llm_def
          both_decision_match both_decision_parse del: jsonMatch.simps)
  have r: "snd (retrieve_documents ?w ?q ''tenant1'') = Inr (Some [photosynthesis])"
    by (simp add: retrieve_documents_def retrieveFromWeaviate_def with_client_def sample_world_def)
  have i: "invoke ?w 0.5 (rag_prompt (join [CHR 10, CHR 10] (map document_text (enumerate 0 [photosynthesis]))) ?q)
             = Inl ?e"
    by (simp add: sample_world_def answer_failing_llm_def)
  from delegateQuery_fails_with_first_error [of _ ?w ?q _ "''tenant1''" "[photosynthesis]" ?e] r i
  have g: "snd (ragGenerate ?w ?q ''tenant1'') = Inl ?e" "rag_task ?w ?q ''tenant1'' = Inl ?e"
    by simp_all
  have c: "chart_for ?w ?q = generateChartConfig ?P"
    by (simp add: chart_for_def extractChartParams_def mockGenerateChart_def sample_world_def
          answer_failing_llm_def scripted_llm_def pie_match pie_parse del: jsonMatch.simps)
  obtain cfg where cfg: "generateChartConfig ?P = Inr cfg"
    by (simp add: generateChartConfig_def Let_def)
  have t: "tasks ?w ?q (default_tenant None) (snd (analyzeQuery ?w ?q)) = [Inl ?e, Inr (Chart cfg)]"
    by (simp add: d tasks_def g chart_task_def c cfg)
  from delegateQuery_fails_with_first_error [of ?e ?w ?q None] t
  obtain e' where "delegateQuery ?w ?q None = Inl e'"
    "Inl e' \<in> set (tasks ?w ?q (default_tenant None) (snd (analyzeQuery ?w ?q)))"
    by auto
  with t have "delegateQuery ?w ?q None = Inl ?e" by auto
  with g show ?thesis by simp
qed

section \<open>What a response may carry\<close>

lemma foldl_file_result_chart:
  "chartData (foldl file_result s rs) \<noteq> chartData s \<Longrightarrow> \<exists>c. Chart c \<in> set rs"
proof (induction rs arbitrary: s)
  case Nil
  then show ?case by simp
next
  case (Cons x rs)
  show ?case
  proof (cases x)
    case (Chart c)
    then show ?thesis by auto
  next
    case (Rag d)
    with Cons.prems have "chartData (foldl file_result (s\<lparr>ragData := Some d\<rparr>) rs) \<noteq> chartData (s\<lparr>ragData := Some d\<rparr>)"
      by simp
    from Cons.IH [OF this] show ?thesis by auto
  next
    case (Direct d)
    with Cons.prems have "chartData (foldl file_result (s\<lparr>directData := Some d\<rparr>) rs) \<noteq> chartData (s\<lparr>directData := Some d\<rparr>)"
      by simp
    from Cons.IH [OF this] show ?thesis by auto
  qed
qed

lemma foldl_file_result_rag:
  "ragData (foldl file_result s rs) \<noteq> ragData s \<Longrightarrow> \<exists>d. Rag d \<in> set rs"
proof (induction rs arbitrary: s)
  case Nil
  then show ?case by simp
next
  case (Cons x rs)
  show ?case
  proof (cases x)
    case (Rag d)
    then show ?thesis by auto
  next
    case (Chart c)
    with Cons.prems have "ragData (foldl file_result (s\<lparr>chartData := c\<rparr>) rs) \<noteq> ragData (s\<lparr>chartData := c\<rparr>)"
      by simp
    from Cons.IH [OF this] show ?thesis by auto
  next
    case (Direct d)
    with Cons.prems have "ragData (foldl file_result (s\<lparr>directData := Some d\<rparr>) rs) \<noteq> ragData (s\<lparr>directData := Some d\<rparr>)"
      by simp
    from Cons.IH [OF this] show ?thesis by auto
  qed
qed

lemma build_response_chart:
  "chartConfig (build_response s) \<noteq> JNull \<Longrightarrow> chartData s \<noteq> JNull"
  by (auto simp: build_response_def split: option.splits if_splits)

lemma build_response_rag:
  "references (build_response s) \<noteq> [] \<or> fileIds (build_response s) \<noteq> [] \<Longrightarrow> ragData s \<noteq> None"
  by (auto simp: build_response_def split: option.splits if_splits)

lemma combine_chart: "chartConfig (combine rs) \<noteq> JNull \<Longrightarrow> \<exists>c. Chart c \<in> set rs"
proof -
  assume "chartConfig (combine rs) \<noteq> JNull"
  then have "chartData (foldl file_result \<lparr>ragData = None, chartData = JNull, directData = None\<rparr> rs) \<noteq> JNull"
    unfolding combine_def by (rule build_response_chart)
  then show ?thesis using foldl_file_result_chart [of "\<lparr>ragData = None, chartData = JNull, directData = None\<rparr>" rs]
    by simp
qed

lemma combine_rag: "references (combine rs) \<noteq> [] \<or> fileIds (combine rs) \<noteq> [] \<Longrightarrow> \<exists>d. Rag d \<in> set rs"
proof -
  assume "references (combine rs) \<noteq> [] \<or> fileIds (combine rs) \<noteq> []"
  then have "ragData (foldl file_result \<lparr>ragData = None, chartData = JNull, directData = None\<rparr> rs) \<noteq> None"
    unfolding combine_def by (rule build_response_rag)
  then show ?thesis using foldl_file_result_rag [of "\<lparr>ragData = None, chartData = JNull, directData = None\<rparr>" rs]
    by simp
qed

lemma tasks_chart:
  "Inr (Chart c) \<in> set (tasks w q t d) \<Longrightarrow> truthy (js_get d ''needsChart'')"
  by (auto simp: tasks_def rag_task_def direct_task_def split: if_splits sum.splits)

lemma tasks_rag:
  "Inr (Rag r) \<in> set (tasks w q t d) \<Longrightarrow> truthy (js_get d ''needsRAG'')"
  by (auto simp: tasks_def chart_task_def direct_task_def split: if_splits sum.splits)

lemma delegateQuery_results:
  assumes "delegateQuery w q topt = Inr r"
  shows "r = combine (fulfilled_values (tasks w q (default_tenant topt) (snd (analyzeQuery w q))))"
  using assms
  by (auto simp: delegateQuery_tasks Let_def split: if_splits sum.splits dest: promise_all_fulfilled)

text \<open>
  C7.  A response that \<^verbatim>\<open>delegateQuery\<close> returns has a chart configuration other than
  \<^verbatim>\<open>null\<close> only if \<^verbatim>\<open>decision.needsChart\<close> was truthy, and has references or file
  identifiers only if \<^verbatim>\<open>decision.needsRAG\<close> was truthy.  With neither selected (a
  direct-only or unroutable query) the chart configuration is \<^verbatim>\<open>null\<close> and both lists
  are empty.
\<close>

theorem response_carries_only_selected:
  "delegateQuery w q topt = Inr r \<longrightarrow>
     (chartConfig r \<noteq> JNull \<longrightarrow> truthy (js_get (snd (analyzeQuery w q)) ''needsChart''))
     \<and> (references r \<noteq> [] \<or> fileIds r \<noteq> [] \<longrightarrow> truthy (js_get (snd (analyzeQuery w q)) ''needsRAG''))
     \<and> (\<not> truthy (js_get (snd (analyzeQuery w q)) ''needsChart'') \<and>
        \<not> truthy (js_get (snd (analyzeQuery w q)) ''needsRAG'') \<longrightarrow>
          chartConfig r = JNull \<and> references r = [] \<and> fileIds r = [])"
proof (intro impI)
  let ?d = "snd (analyzeQuery w q)"
  let ?ts = "tasks w q (default_tenant topt) ?d"
  assume "delegateQuery w q topt = Inr r"
  then have r: "r = combine (fulfilled_values ?ts)" by (rule delegateQuery_results)
  have c: "truthy (js_get ?d ''needsChart'')" if "chartConfig r \<noteq> JNull"
  proof -
    from that r obtain c where "Chart c \<in> set (fulfilled_values ?ts)"
      using combine_chart by blast
    then have "Inr (Chart c) \<in> set ?ts" by (simp add: fulfilled_values_member)
    then show ?thesis by (rule tasks_chart)
  qed
  have g: "truthy (js_get ?d ''needsRAG'')" if "references r \<noteq> [] \<or> fileIds r \<noteq> []"
  proof -
    from that r obtain d where "Rag d \<in> set (fulfilled_values ?ts)"
      using combine_rag by blast
    then have "Inr (Rag d) \<in> set ?ts" by (simp add: fulfilled_values_member)
    then show ?thesis by (rule tasks_rag)
  qed
  from c g show "(chartConfig r \<noteq> JNull \<longrightarrow> truthy (js_get ?d ''needsChart''))
     \<and> (references r \<noteq> [] \<or> fileIds r \<noteq> [] \<longrightarrow> truthy (js_get ?d ''needsRAG''))
     \<and> (\<not> truthy (js_get ?d ''needsChart'') \<and> \<not> truthy (js_get ?d ''needsRAG'') \<longrightarrow>
          chartConfig r = JNull \<and> references r = [] \<and> fileIds r = [])"
    by blast
qed

lemma direct_decision_parse:
  \<open>json_parse ''{"needsChart": false, "needsRAG": false, "needsDirect": true, "reasoning": "greeting"}'' =
     Some (JObj [(''needsChart'', JBool False), (''needsRAG'', JBool False),
                 (''needsDirect'', JBool True), (''reasoning'', JStr ''greeting'')])\<close>
  by code_simp

lemma direct_decision_match:
  \<open>jsonMatch ''{"needsChart": false, "needsRAG": false, "needsDirect": true, "reasoning": "greeting"}'' =
     Some ''{"needsChart": false, "needsRAG": false, "needsDirect": true, "reasoning": "greeting"}''\<close>
  by simp

lemma chart_decision_parse:
  \<open>json_parse ''{"needsChart": true, "needsRAG": false, "needsDirect": false, "reasoning": "chart"}'' =
     Some (JObj [(''needsChart'', JBool True), (''needsRAG'', JBool False),
                 (''needsDirect'', JBool False), (''reasoning'', JStr ''chart'')])\<close>
  by code_simp

lemma chart_decision_match:
  \<open>jsonMatch ''{"needsChart": true, "needsRAG": false, "needsDirect": false, "reasoning": "chart"}'' =
     Some ''{"needsChart": true, "needsRAG": false, "needsDirect": false, "reasoning": "chart"}''\<close>
  by simp

lemma first_rejection_all_fulfilled:
  "(\<And>e. Inl e \<notin> set ps) \<Longrightarrow> first_rejection ps is = None"
proof (induction "is")
  case Nil
  show ?case by simp
next
  case (Cons i "is")
  show ?case
  proof (cases "i < length ps")
    case True
    then have "ps ! i \<in> set ps" by simp
    with Cons.prems obtain v where "ps ! i = Inr v" by (cases "ps ! i") auto
    with True Cons show ?thesis by simp
  next
    case False
    with Cons show ?thesis by simp
  qed
qed

lemma promise_all_single: "promise_all order [Inr v] = Inr [v]"
  by (simp add: promise_all_def first_rejection_all_fulfilled)

lemma delegateQuery_direct_only:
  assumes d: "snd (analyzeQuery w q) = JObj ps"
    and flags: "truthy (js_get (JObj ps) ''needsDirect'')" "\<not> truthy (js_get (JObj ps) ''needsRAG'')"
      "\<not> truthy (js_get (JObj ps) ''needsChart'')"
    and c: "invoke w 0.7 (direct_prompt q) = Inr content"
  shows "delegateQuery w q topt =
           Inr \<lparr>answer = content, fileIds = [], references = [], chartConfig = JNull\<rparr>"
proof -
  have t: "tasks w q (default_tenant topt) (JObj ps) =
      [Inr (Direct \<lparr>answer = content, fileIds = [], references = [], chartConfig = JNull\<rparr>)]"
    using flags c by (simp add: tasks_def direct_task_def handleDirectAnswer_def)
  show ?thesis
    unfolding delegateQuery_tasks d Let_def t promise_all_single
    by (simp add: combine_def build_response_def)
qed

lemma delegateQuery_chart_only:
  assumes d: "snd (analyzeQuery w q) = JObj ps"
    and flags: "\<not> truthy (js_get (JObj ps) ''needsRAG'')" "truthy (js_get (JObj ps) ''needsChart'')"
    and c: "chart_for w q = Inr cfg" "truthy cfg"
  shows "delegateQuery w q topt =
           Inr \<lparr>answer = ''I've generated the chart visualization as requested.'',
                fileIds = [], references = [], chartConfig = cfg\<rparr>"
proof -
  have t: "tasks w q (default_tenant topt) (JObj ps) = [Inr (Chart cfg)]"
    using flags c by (simp add: tasks_def chart_task_def)
  show ?thesis
    unfolding delegateQuery_tasks d Let_def t promise_all_single
    using c by (simp add: combine_def build_response_def)
qed

lemma generateChartConfig_object:
  "params \<noteq> JNull \<Longrightarrow> params \<noteq> JUndefined \<Longrightarrow> \<exists>ps. generateChartConfig params = Inr (JObj ps)"
  by (simp add: generateChartConfig_def Let_def)

lemma delegateQuery_rag_only:
  assumes d: "snd (analyzeQuery w q) = JObj ps"
    and flags: "truthy (js_get (JObj ps) ''needsRAG'')" "\<not> truthy (js_get (JObj ps) ''needsChart'')"
    and r: "snd (ragGenerate w q (default_tenant topt)) = Inr result"
  shows "delegateQuery w q topt =
           Inr \<lparr>answer = answer result, fileIds = fileIds result, references = references result,
                chartConfig = JNull\<rparr>"
proof -
  have t: "tasks w q (default_tenant topt) (JObj ps) = [Inr (Rag result)]"
    using flags r by (simp add: tasks_def rag_task_def)
  show ?thesis
    unfolding delegateQuery_tasks d Let_def t promise_all_single
    by (simp add: combine_def build_response_def)
qed

lemma rag_decision_parse:
  \<open>json_parse ''{"needsChart": false, "needsRAG": true, "needsDirect": false, "reasoning": "knowledge"}'' =
     Some (JObj [(''needsChart'', JBool False), (''needsRAG'', JBool True),
                 (''needsDirect'', JBool False), (''reasoning'', JStr ''knowledge'')])\<close>
  by code_simp

lemma rag_decision_match:
  \<open>jsonMatch ''{"needsChart": false, "needsRAG": true, "needsDirect": false, "reasoning": "knowledge"}'' =
     Some ''{"needsChart": false, "needsRAG": true, "needsDirect": false, "reasoning": "knowledge"}''\<close>
  by simp

text \<open>
  A greeting answered directly, a chart request, and a question answered from the store.
\<close>

theorem response_carries_only_selected_witness:
  \<open>delegateQuery
      (sample_world
         (scripted_llm
            ''{"needsChart": false, "needsRAG": false, "needsDirect": true, "reasoning": "greeting"}''
            [] [] ''Hello! I am fine.'')
         (sample_store [france] [france]))
      ''Hello, how are you?'' None
     = Inr \<lparr>answer = ''Hello! I am fine.'', fileIds = [], references = [], chartConfig = JNull\<rparr>
   \<and> (\<exists>r. delegateQuery
            (sample_world
               (scripted_llm
                  ''{"needsChart": true, "needsRAG": false, "needsDirect": false, "reasoning": "chart"}''
                  ''{"chartType":"pie","title":"Plants","labels":["Trees","Flowers"],"data":[40,60]}''
                  [] [])
               (sample_store [france] [france]))
            ''Show a pie chart of plants'' None = Inr r
          \<and> chartConfig r \<noteq> JNull \<and> references r = [] \<and> fileIds r = [])
   \<and> truthy (js_get (snd (analyzeQuery
            (sample_world
               (scripted_llm
                  ''{"needsChart": true, "needsRAG": false, "needsDirect": false, "reasoning": "chart"}''
                  ''{"chartType":"pie","title":"Plants","labels":["Trees","Flowers"],"data":[40,60]}''
                  [] [])
               (sample_store [france] [france]))
            ''Show a pie chart of plants'')) ''needsChart'')
   \<and> delegateQuery
      (sample_world
         (scripted_llm
            ''{"needsChart": false, "needsRAG": true, "needsDirect": false, "reasoning": "knowledge"}''
            [] ''Paris.'' [])
         (sample_store [france] [france]))
      ''What is the capital of France?'' None
     = Inr \<lparr>answer = ''Paris.'', fileIds = [''FILE-001''],
            references = [\<lparr>fileId = ''FILE-001'', question = ''What is the capital of France?'',
                           answer = ''The capital of France is Paris.''\<rparr>],
            chartConfig = JNull\<rparr>
   \<and> truthy (js_get (snd (analyzeQuery
            (sample_world
               (scripted_llm
                  ''{"needsChart": false, "needsRAG": true, "needsDirect": false, "reasoning": "knowledge"}''
                  [] ''Paris.'' [])
               (sample_store [france] [france]))
            ''What is the capital of France?'')) ''needsRAG'')\<close>
proof -
  let ?A1 = \<open>''{"needsChart": false, "needsRAG": false, "needsDirect": true, "reasoning": "greeting"}''\<close>
  let ?A2 = \<open>''{"needsChart": true, "needsRAG": false, "needsDirect": false, "reasoning": "chart"}''\<close>
  let ?A3 = \<open>''{"needsChart": false, "needsRAG": true, "needsDirect": false, "reasoning": "knowledge"}''\<close>
  let ?C = \<open>''{"chartType":"pie","title":"Plants","labels":["Trees","Flowers"],"data":[40,60]}''\<close>
  let ?P = "JObj [(''chartType'', JStr ''pie''), (''title'', JStr ''Plants''),
                 (''labels'', JArr [JStr ''Trees'', JStr ''Flowers'']),
                 (''data'', JArr [JNum (Finite 40), JNum (Finite 60)])]"
  let ?w1 = "sample_world (scripted_llm ?A1 [] [] ''Hello! I am fine.'') (sample_store [france] [france])"
  let ?w2 = "sample_world (scripted_llm ?A2 ?C [] []) (sample_store [france] [france])"
  let ?w3 = "sample_world (scripted_llm ?A3 [] ''Paris.'' []) (sample_store [france] [france])"
  let ?q1 = "''Hello, how are you?''"
  let ?q2 = "''Show a pie chart of plants''"
  let ?q3 = "''What is the capital of France?''"
  let ?R1 = "\<lparr>answer = ''Hello! I am fine.'', fileIds = [], references = [], chartConfig = JNull\<rparr>"
  let ?R3 = "\<lparr>answer = ''Paris.'', fileIds = [''FILE-001''],
            references = [\<lparr>fileId = ''FILE-001'', question = ''What is the capital of France?'',
                           answer = ''The capital of France is Paris.''\<rparr>],
            chartConfig = JNull\<rparr>"
  have d1: "snd (analyzeQuery ?w1 ?q1) =
      JObj [(''needsChart'', JBool False), (''needsRAG'', JBool False),
            (''needsDirect'', JBool True), (''reasoning'', JStr ''greeting'')]"
    by (simp add: analyzeQuery_def sample_world_def scripted_llm_def
          direct_decision_match direct_decision_parse del: jsonMatch.simps)
  have i1: "invoke ?w1 0.7 (direct_prompt ?q1) = Inr ''Hello! I am fine.''"
    by (simp add: sample_world_def scripted_llm_def)
  have r1: "delegateQuery ?w1 ?q1 None = Inr ?R1"
    by (rule delegateQuery_direct_only [OF d1 _ _ _ i1]) simp_all
  from response_carries_only_selected [of ?w1 ?q1 None ?R1] r1
  have n1: "chartConfig ?R1 = JNull \<and> references ?R1 = [] \<and> fileIds ?R1 = []"
    unfolding d1 by simp
  have d2: "snd (analyzeQuery ?w2 ?q2) =
      JObj [(''needsChart'', JBool True), (''needsRAG'', JBool False),
            (''needsDirect'', JBool False), (''reasoning'', JStr ''chart'')]"
    by (simp add: analyzeQuery_def sample_world_def scripted_llm_def
          chart_decision_match chart_decision_parse del: jsonMatch.simps)
  have c2: "chart_for ?w2 ?q2 = generateChartConfig ?P"
    by (simp add: chart_for_def extractChartParams_def mockGenerateChart_def sample_world_def
          scripted_llm_def pie_match pie_parse del: jsonMatch.simps)
  obtain ps where cfg: "generateChartConfig ?P = Inr (JObj ps)"
    using generateChartConfig_object [of ?P] by auto
  let ?R2 = "\<lparr>answer = ''I've generated the chart visualization as requested.'',
           fileIds = [], references = [], chartConfig = JObj ps\<rparr>"
  have r2: "delegateQuery ?w2 ?q2 None = Inr ?R2"
    by (rule delegateQuery_chart_only [OF d2]) (simp_all add: c2 cfg)
  from response_carries_only_selected [of ?w2 ?q2 None ?R2] r2
  have n2: "truthy (js_get (snd (analyzeQuery ?w2 ?q2)) ''needsChart'')" by simp
  have d3: "snd (analyzeQuery ?w3 ?q3) =
      JObj [(''needsChart'', JBool False), (''needsRAG'', JBool True),
            (''needsDirect'', JBool False), (''reasoning'', JStr ''knowledge'')]"
    by (simp add: analyzeQuery_def sample_world_def scripted_llm_def
          rag_decision_match rag_decision_parse del: jsonMatch.simps)
  have docs3: "snd (retrieve_documents ?w3 ?q3 ''tenant1'') = Inr (Some [france])"
    by (simp add: retrieve_documents_def retrieveFromWeaviate_def with_client_def sample_world_def)
  have i3: "invoke ?w3 0.5 (rag_prompt (join [CHR 10, CHR 10] (map document_text (enumerate 0 [france]))) ?q3)
             = Inr ''Paris.''"
    by (simp add: sample_world_def scripted_llm_def)
  have "snd (ragGenerate ?w3 ?q3 ''tenant1'') =
      Inr \<lparr>answer = ''Paris.'', fileIds = map (\<lambda>doc. fileId (properties doc)) [france],
           references = map (\<lambda>doc. \<lparr>fileId = fileId (properties doc),
                                        question = question (properties doc),
                                        answer = qa.answer (properties doc)\<rparr>) [france]\<rparr>"
    unfolding ragGenerate_result docs3 using i3 by (simp add: generate_from_documents)
  then have g3: "snd (ragGenerate ?w3 ?q3 (default_tenant None)) =
      Inr \<lparr>answer = ''Paris.'', fileIds = [''FILE-001''],
           references = [\<lparr>fileId = ''FILE-001'', question = ''What is the capital of France?'',
                          answer = ''The capital of France is Paris.''\<rparr>]\<rparr>"
    by (simp add: france_def)
  have r3: "delegateQuery ?w3 ?q3 None = Inr ?R3"
    using delegateQuery_rag_only [OF d3 _ _ g3] by simp
  from response_carries_only_selected [of ?w3 ?q3 None ?R3] r3
  have n3: "truthy (js_get (snd (analyzeQuery ?w3 ?q3)) ''needsRAG'')" by simp
  from r1 r2 n2 r3 n3 show ?thesis
    by (intro conjI exI [of _ ?R2]) simp_all
qed

section \<open>The graph boundary\<close>

text \<open>
  C10.  When \<^verbatim>\<open>delegateQuery\<close> throws, \<^verbatim>\<open>runAgentGraph\<close> still returns a state: its
  \<^verbatim>\<open>error\<close> is the message of what was thrown, its \<^verbatim>\<open>answer\<close> the fixed text, and
  every other field is as in the initial state.
\<close>

theorem runAgentGraph_absorbs_failure:
  "delegateQuery w q (Some (default_tenant topt)) = Inl e \<longrightarrow>
     runAgentGraph w q topt =
       Inr \<lparr>answer = ''I encountered an error processing your request. Please try again.'',
            fileIds = [], references = [], chartConfig = JNull,
            query = q, tenant = default_tenant topt,
            error = Some (message e),
            metadata = [(''startTime'', JStr (startTime w))]\<rparr>"
  by (simp add: runAgentGraph_def app_invoke_def write_channels_def channel_defaults_def
        delegatingNode_def Let_def)

text \<open>
A language model that fails on every request.
\<close>

theorem runAgentGraph_absorbs_failure_witness:
  "runAgentGraph (sample_world (failing_llm ''503 unavailable'') (sample_store [france] []))
      ''What is the capital of France?'' None =
       Inr \<lparr>answer = ''I encountered an error processing your request. Please try again.'',
            fileIds = [], references = [], chartConfig = JNull,
            query = ''What is the capital of France?'', tenant = ''tenant1'',
            error = Some ''503 unavailable'',
            metadata = [(''startTime'', JStr ''2025-01-01T00:00:00.000Z'')]\<rparr>"
proof -
  let ?w = "sample_world (failing_llm ''503 unavailable'') (sample_store [france] [])"
  let ?q = "''What is the capital of France?''"
  let ?e = "Error ''503 unavailable''"
  have d: "snd (analyzeQuery ?w ?q) = decision_error"
    by (simp add: analyzeQuery_def sample_world_def failing_llm_def)
  have r: "snd (retrieve_documents ?w ?q ''tenant1'') = Inr (Some [france])"
    by (simp add: retrieve_documents_def retrieveFromWeaviate_def with_client_def sample_world_def)
  have i: "invoke ?w 0.5 (rag_prompt (join [CHR 10, CHR 10] (map document_text (enumerate 0 [france]))) ?q)
             = Inl ?e"
    by (simp add: sample_world_def failing_llm_def)
  have g: "rag_task ?w ?q ''tenant1'' = Inl ?e"
    by (rule rag_task_synthesis_failure(2) [OF r _ i]) simp
  have t: "tasks ?w ?q ''tenant1'' decision_error = [Inl ?e]"
    by (simp add: tasks_def decision_error_def g)
  have "promise_all (settle ?w) [Inl ?e :: error + capability_result] = Inl ?e"
    by (simp add: promise_all_def sample_world_def)
  moreover have "decision_error \<noteq> JNull" "decision_error \<noteq> JUndefined"
    by (simp_all add: decision_error_def)
  ultimately have f: "delegateQuery ?w ?q (Some (default_tenant None)) = Inl ?e"
    unfolding delegateQuery_tasks d Let_def by (simp add: t)
  have s: "startTime ?w = ''2025-01-01T00:00:00.000Z''" by (simp add: sample_world_def)
  from runAgentGraph_absorbs_failure [of ?w ?q None ?e] f
  have "runAgentGraph ?w ?q None =
       Inr \<lparr>answer = ''I encountered an error processing your request. Please try again.'',
            fileIds = [], references = [], chartConfig = JNull,
            query = ?q, tenant = default_tenant None,
            error = Some (message ?e),
            metadata = [(''startTime'', JStr (startTime ?w))]\<rparr>"
    by blast
  then show ?thesis unfolding s by simp
qed

end
